theory Spec2Isabelle
  imports Main "HOL-Library.Signed_Division" "HOL-Library.Word"
begin

unbundle bit_operations_syntax

section \<open>Package distlock: shared types\<close>

text \<open>
  \<^verbatim>\<open>time.Duration\<close> is a signed count of nanoseconds and \<^verbatim>\<open>time.Time\<close> is read as
  nanoseconds on one wall clock. Go's \<^verbatim>\<open>/\<close> on integers truncates towards zero, which
  is \<open>sdiv\<close>.
\<close>

type_synonym Duration = int
type_synonym Time = int

definition Second :: Duration where
  "Second = 1000000000"

text \<open>
  \<^verbatim>\<open>d.Seconds()\<close> converted to an integer: the whole seconds of \<open>d\<close>. The source goes
  through a \<^verbatim>\<open>float64\<close> and then to \<^verbatim>\<open>int64\<close> (etcd) or \<^verbatim>\<open>int32\<close> (Memcached); this
  is the value it gets for durations below \<open>2 ^ 24\<close> seconds, where the sum of whole
  seconds and fraction is not rounded up to the next second and the result fits. Longer
  durations are outside the model.
\<close>

definition Seconds :: "Duration \<Rightarrow> int" where
  "Seconds d = d sdiv Second"

text \<open>
  \<^verbatim>\<open>logger.Logger\<close>: the no-op logger of package \<^verbatim>\<open>empty\<close>, or a logger supplied by
  the caller. Logging changes nothing that is modelled here.
\<close>

datatype Logger = emptyLogger | userLogger nat

text \<open>
  Go errors. The sentinels and driver errors the adapters compare against, an opaque
  failure of the store client, and the two shapes built by \<^verbatim>\<open>fmt.Errorf\<close>: a finished
  message, and a prefix followed by the text of another error.
\<close>

datatype error =
    Transport
  | Rejected string
  | RedisNil
  | ErrNotStored
  | ErrCacheMiss
  | ErrNodeExists
  | ErrNoNode
  | ErrLeaseNotFound
  | ErrRecordNotFound
  | MySQLError nat
  | PgError string
  | WriteError nat
  | Errorf string
  | Wrapf string error

text \<open>A call either returns or panics; the state reached is kept in both cases.\<close>

datatype 'a outcome = Return 'a | Panic string

subsection \<open>Options\<close>

record Options =
  lockName :: string
  lockTimeout :: Duration
  ownerID :: string
  logger :: Logger

type_synonym Option = "Options \<Rightarrow> Options"

definition DefaultLockName :: string where
  "DefaultLockName = ''onex-distributed-lock''"

text \<open>
  \<open>hostname\<close> is what \<^verbatim>\<open>os.Hostname()\<close> returned, its error dropped as the source
  drops it.
\<close>

definition NewOptions :: "string \<Rightarrow> Options" where
  "NewOptions hostname =
     \<lparr> lockName = DefaultLockName,
       lockTimeout = 10 * Second,
       ownerID = hostname,
       logger = emptyLogger \<rparr>"

definition ApplyOptions :: "string \<Rightarrow> Option list \<Rightarrow> Options" where
  "ApplyOptions hostname opts = foldl (\<lambda>cfg opt. opt cfg) (NewOptions hostname) opts"

definition WithLockName :: "string \<Rightarrow> Option" where
  "WithLockName name = (\<lambda>cfg. cfg\<lparr>lockName := name\<rparr>)"

definition WithLockTimeout :: "Duration \<Rightarrow> Option" where
  "WithLockTimeout timeout = (\<lambda>cfg. cfg\<lparr>lockTimeout := timeout\<rparr>)"

definition WithOwnerID :: "string \<Rightarrow> Option" where
  "WithOwnerID owner = (\<lambda>cfg. cfg\<lparr>ownerID := owner\<rparr>)"

definition WithLogger :: "Logger \<Rightarrow> Option" where
  "WithLogger lg = (\<lambda>cfg. cfg\<lparr>logger := lg\<rparr>)"

subsection \<open>The Go runtime the lockers use\<close>

text \<open>
  A \<^verbatim>\<open>*time.Ticker\<close> is an index into the list of tickers ever made. A ticker has a
  period, is running until stopped, and its channel holds at most one tick that has
  not been received. \<^verbatim>\<open>Stop\<close> ends the sending of ticks; it neither closes nor drains
  the channel.
\<close>

record Ticker =
  period :: Duration
  running :: bool
  pending :: bool

text \<open>
  The control state of one \<^verbatim>\<open>renewLock\<close> goroutine: about to evaluate the channels of
  its \<^verbatim>\<open>select\<close>, blocked in the \<^verbatim>\<open>select\<close> on the channel of a ticker, holding a tick
  and about to call \<^verbatim>\<open>Renew\<close>, returned through the stop channel, or stopped by the
  nil-pointer panic of \<^verbatim>\<open>l.renewTicker.C\<close>.
\<close>

datatype goroutine = AtLoop | Waiting nat | GotTick | Returned | Crashed

text \<open>\<^verbatim>\<open>chan struct{}\<close>: whether it has been closed and how many sends were issued on it.\<close>

record chan =
  closed :: bool
  sends :: nat

definition make_chan :: chan where
  "make_chan = \<lparr> closed = False, sends = 0 \<rparr>"

text \<open>What a locker does to the outside, in program order.\<close>

datatype effect =
    EvNewTicker nat Duration
  | EvStop nat
  | EvGo
  | EvCall string "string list"

record 'b world =
  backend :: 'b
  now :: Time
  tickers :: "Ticker list"
  goroutines :: "goroutine list"
  trace :: "effect list"

definition emit :: "effect \<Rightarrow> 'b world \<Rightarrow> 'b world" where
  "emit e w = w\<lparr>trace := trace w @ [e]\<rparr>"

text \<open>\<^verbatim>\<open>time.NewTicker(d)\<close> panics when \<open>d \<le> 0\<close>; \<open>None\<close> is that panic.\<close>

definition NewTicker :: "Duration \<Rightarrow> 'b world \<Rightarrow> (nat \<times> 'b world) option" where
  "NewTicker d w =
     (if d \<le> 0 then None
      else Some (length (tickers w),
                 emit (EvNewTicker (length (tickers w)) d)
                   (w\<lparr>tickers := tickers w @ [\<lparr> period = d, running = True, pending = False \<rparr>]\<rparr>)))"

definition Stop :: "nat \<Rightarrow> 'b world \<Rightarrow> 'b world" where
  "Stop t w =
     emit (EvStop t)
       (if t < length (tickers w)
        then w\<lparr>tickers := (tickers w)[t := (tickers w ! t)\<lparr>running := False\<rparr>]\<rparr>
        else w)"

text \<open>\<^verbatim>\<open>go l.renewLock(ctx)\<close>: one more goroutine, at the top of its loop.\<close>

definition go_renewLock :: "'b world \<Rightarrow> 'b world" where
  "go_renewLock w = emit EvGo (w\<lparr>goroutines := goroutines w @ [AtLoop]\<rparr>)"

definition NewTicker_panic :: string where
  "NewTicker_panic = ''non-positive interval for NewTicker''"

section \<open>The compare-and-swap adapters\<close>

subsection \<open>The Redis store, as the go-redis client shows it\<close>

text \<open>
  A key holds a value and, when it has one, the instant at which it expires; a key
  whose instant has been reached is gone. An unreachable server fails every command
  with a transport error. The client's rounding of a time-to-live to the unit of the
  protocol is left out.
\<close>

record redis =
  rkeys :: "string \<rightharpoonup> (string \<times> Time option)"
  r_down :: bool

definition live :: "Time \<Rightarrow> Time option \<Rightarrow> bool" where
  "live t e = (case e of None \<Rightarrow> True | Some x \<Rightarrow> t < x)"

definition redis_get :: "redis world \<Rightarrow> string \<Rightarrow> string option" where
  "redis_get w k =
     (case rkeys (backend w) k of
        None \<Rightarrow> None
      | Some (v, e) \<Rightarrow> if live (now w) e then Some v else None)"

text \<open>
  \<^verbatim>\<open>SetNX(key, value, ttl)\<close>: sets the key only when it is absent. A time-to-live of
  \<open>0\<close> or \<^verbatim>\<open>KeepTTL\<close> (\<open>-1\<close>) stores the key without expiry, any other negative one is
  refused by the server.
\<close>

definition SetNX :: "string \<Rightarrow> string \<Rightarrow> Duration \<Rightarrow> redis world \<Rightarrow> (error + bool) \<times> redis world" where
  "SetNX k v ttl w =
     (let w' = emit (EvCall ''SetNX'' [k, v]) w in
      if r_down (backend w) then (Inl Transport, w')
      else if ttl < - 1 then (Inl (Rejected ''ERR invalid expire time''), w')
      else if redis_get w k \<noteq> None then (Inr False, w')
      else (Inr True,
            w'\<lparr>backend := (backend w)\<lparr>rkeys := (rkeys (backend w))
               (k \<mapsto> (v, if ttl \<le> 0 then None else Some (now w + ttl)))\<rparr>\<rparr>))"

text \<open>\<^verbatim>\<open>Get(key)\<close>: the value, or the error \<^verbatim>\<open>redis.Nil\<close> when the key is absent.\<close>

definition Get :: "string \<Rightarrow> redis world \<Rightarrow> (error + string) \<times> redis world" where
  "Get k w =
     (let w' = emit (EvCall ''Get'' [k]) w in
      if r_down (backend w) then (Inl Transport, w')
      else case redis_get w k of
             None \<Rightarrow> (Inl RedisNil, w')
           | Some v \<Rightarrow> (Inr v, w'))"

definition Del :: "string \<Rightarrow> redis world \<Rightarrow> error option \<times> redis world" where
  "Del k w =
     (let w' = emit (EvCall ''Del'' [k]) w in
      if r_down (backend w) then (Some Transport, w')
      else (None, w'\<lparr>backend := (backend w)\<lparr>rkeys := (rkeys (backend w))(k := None)\<rparr>\<rparr>))"

text \<open>
  \<^verbatim>\<open>Expire(key, ttl)\<close>: gives a present key a new expiry, and deletes it when the
  time-to-live is not positive; on an absent key it does nothing and is no error.
\<close>

definition Expire :: "string \<Rightarrow> Duration \<Rightarrow> redis world \<Rightarrow> error option \<times> redis world" where
  "Expire k ttl w =
     (let w' = emit (EvCall ''Expire'' [k]) w in
      if r_down (backend w) then (Some Transport, w')
      else case redis_get w k of
             None \<Rightarrow> (None, w')
           | Some v \<Rightarrow>
               (None, w'\<lparr>backend := (backend w)\<lparr>rkeys :=
                  (if ttl \<le> 0 then (rkeys (backend w))(k := None)
                   else (rkeys (backend w))(k \<mapsto> (v, Some (now w + ttl))))\<rparr>\<rparr>))"

subsection \<open>RedisLocker\<close>

record RedisLocker =
  Redis_lockName :: string
  Redis_lockTimeout :: Duration
  Redis_renewTicker :: "nat option"
  Redis_stopChan :: chan
  Redis_ownerID :: string
  Redis_logger :: Logger

definition NewRedisLocker :: "string \<Rightarrow> Option list \<Rightarrow> RedisLocker" where
  "NewRedisLocker hostname opts =
     (let cfg = ApplyOptions hostname opts in
      \<lparr> Redis_lockName = lockName cfg,
        Redis_lockTimeout = lockTimeout cfg,
        Redis_renewTicker = None,
        Redis_stopChan = make_chan,
        Redis_ownerID = ownerID cfg,
        Redis_logger = logger cfg \<rparr>)"

definition RedisLocker_Lock ::
  "RedisLocker \<Rightarrow> redis world \<Rightarrow> error option outcome \<times> RedisLocker \<times> redis world" where
  "RedisLocker_Lock l w =
     (case SetNX (Redis_lockName l) (Redis_ownerID l) (Redis_lockTimeout l) w of
        (Inl err, w1) \<Rightarrow> (Return (Some err), l, w1)
      | (Inr success, w1) \<Rightarrow>
          if \<not> success then
            (case Get (Redis_lockName l) w1 of
               (Inl err, w2) \<Rightarrow> (Return (Some err), l, w2)
             | (Inr currentOwnerID, w2) \<Rightarrow>
                 if currentOwnerID \<noteq> Redis_ownerID l
                 then (Return (Some (Errorf (''lock is already held by '' @ currentOwnerID))), l, w2)
                 else (Return None, l, w2))
          else
            (case NewTicker (Redis_lockTimeout l sdiv 2) w1 of
               None \<Rightarrow> (Panic NewTicker_panic, l, w1)
             | Some (t, w2) \<Rightarrow> (Return None, l\<lparr>Redis_renewTicker := Some t\<rparr>, go_renewLock w2)))"

definition RedisLocker_Unlock ::
  "RedisLocker \<Rightarrow> redis world \<Rightarrow> error option outcome \<times> RedisLocker \<times> redis world" where
  "RedisLocker_Unlock l w =
     (let (l1, w1) = (case Redis_renewTicker l of
                        Some t \<Rightarrow> (l\<lparr>Redis_renewTicker := None\<rparr>, Stop t w)
                      | None \<Rightarrow> (l, w)) in
      case Del (Redis_lockName l1) w1 of
        (Some err, w2) \<Rightarrow> (Return (Some err), l1, w2)
      | (None, w2) \<Rightarrow> (Return None, l1, w2))"

definition RedisLocker_Renew ::
  "RedisLocker \<Rightarrow> redis world \<Rightarrow> error option outcome \<times> RedisLocker \<times> redis world" where
  "RedisLocker_Renew l w =
     (case Expire (Redis_lockName l) (Redis_lockTimeout l) w of
        (Some err, w1) \<Rightarrow> (Return (Some err), l, w1)
      | (None, w1) \<Rightarrow> (Return None, l, w1))"

subsection \<open>The Memcached store, as the gomemcache client shows it\<close>

text \<open>
  An item holds a value and an expiry. \<^verbatim>\<open>Expiration\<close> is in seconds from now, \<open>0\<close> for
  an item that never expires. \<^verbatim>\<open>Add\<close> stores only when the key is absent and \<^verbatim>\<open>Replace\<close>
  only when it is present, each answering \<^verbatim>\<open>ErrNotStored\<close> otherwise; \<^verbatim>\<open>Delete\<close> of an
  absent key answers \<^verbatim>\<open>ErrCacheMiss\<close>.
\<close>

record memcached =
  items :: "string \<rightharpoonup> (string \<times> Time option)"
  m_down :: bool

record Item =
  Key :: string
  Value :: string
  Expiration :: int

definition memcached_get :: "memcached world \<Rightarrow> string \<Rightarrow> string option" where
  "memcached_get w k =
     (case items (backend w) k of
        None \<Rightarrow> None
      | Some (v, e) \<Rightarrow> if live (now w) e then Some v else None)"

definition store_item :: "Item \<Rightarrow> memcached world \<Rightarrow> memcached world" where
  "store_item it w =
     w\<lparr>backend := (backend w)\<lparr>items := (items (backend w))
        (Key it \<mapsto> (Value it,
           if Expiration it = 0 then None else Some (now w + Expiration it * Second)))\<rparr>\<rparr>"

definition Add :: "Item \<Rightarrow> memcached world \<Rightarrow> error option \<times> memcached world" where
  "Add it w =
     (let w' = emit (EvCall ''Add'' [Key it, Value it]) w in
      if m_down (backend w) then (Some Transport, w')
      else if memcached_get w (Key it) \<noteq> None then (Some ErrNotStored, w')
      else (None, store_item it w'))"

definition Replace :: "Item \<Rightarrow> memcached world \<Rightarrow> error option \<times> memcached world" where
  "Replace it w =
     (let w' = emit (EvCall ''Replace'' [Key it, Value it]) w in
      if m_down (backend w) then (Some Transport, w')
      else if memcached_get w (Key it) = None then (Some ErrNotStored, w')
      else (None, store_item it w'))"

definition Delete :: "string \<Rightarrow> memcached world \<Rightarrow> error option \<times> memcached world" where
  "Delete k w =
     (let w' = emit (EvCall ''Delete'' [k]) w in
      if m_down (backend w) then (Some Transport, w')
      else if memcached_get w k = None then (Some ErrCacheMiss, w')
      else (None, w'\<lparr>backend := (backend w)\<lparr>items := (items (backend w))(k := None)\<rparr>\<rparr>))"

subsection \<open>MemcachedLocker\<close>

record MemcachedLocker =
  Memcached_lockKey :: string
  Memcached_lockTimeout :: Duration
  Memcached_renewTicker :: "nat option"
  Memcached_stopChan :: chan
  Memcached_ownerID :: string
  Memcached_logger :: Logger

definition NewMemcachedLocker :: "string \<Rightarrow> Option list \<Rightarrow> MemcachedLocker" where
  "NewMemcachedLocker hostname opts =
     (let cfg = ApplyOptions hostname opts in
      \<lparr> Memcached_lockKey = lockName cfg,
        Memcached_lockTimeout = lockTimeout cfg,
        Memcached_renewTicker = None,
        Memcached_stopChan = make_chan,
        Memcached_ownerID = ownerID cfg,
        Memcached_logger = logger cfg \<rparr>)"

definition MemcachedLocker_Lock ::
  "MemcachedLocker \<Rightarrow> memcached world \<Rightarrow> error option outcome \<times> MemcachedLocker \<times> memcached world" where
  "MemcachedLocker_Lock l w =
     (let item = \<lparr> Key = Memcached_lockKey l,
                   Value = Memcached_ownerID l,
                   Expiration = Seconds (Memcached_lockTimeout l) \<rparr> in
      case Add item w of
        (Some err, w1) \<Rightarrow>
          if err = ErrNotStored
          then (Return (Some (Errorf ''lock is already held by another owner'')), l, w1)
          else (Return (Some (Wrapf ''failed to acquire lock: '' err)), l, w1)
      | (None, w1) \<Rightarrow>
          (case NewTicker (Memcached_lockTimeout l sdiv 2) w1 of
             None \<Rightarrow> (Panic NewTicker_panic, l, w1)
           | Some (t, w2) \<Rightarrow> (Return None, l\<lparr>Memcached_renewTicker := Some t\<rparr>, go_renewLock w2)))"

definition MemcachedLocker_Unlock ::
  "MemcachedLocker \<Rightarrow> memcached world \<Rightarrow> error option outcome \<times> MemcachedLocker \<times> memcached world" where
  "MemcachedLocker_Unlock l w =
     (let (l1, w1) = (case Memcached_renewTicker l of
                        Some t \<Rightarrow> (l\<lparr>Memcached_renewTicker := None\<rparr>, Stop t w)
                      | None \<Rightarrow> (l, w)) in
      case Delete (Memcached_lockKey l1) w1 of
        (Some err, w2) \<Rightarrow> (Return (Some (Wrapf ''failed to release lock: '' err)), l1, w2)
      | (None, w2) \<Rightarrow> (Return None, l1, w2))"

definition MemcachedLocker_Renew ::
  "MemcachedLocker \<Rightarrow> memcached world \<Rightarrow> error option outcome \<times> MemcachedLocker \<times> memcached world" where
  "MemcachedLocker_Renew l w =
     (let item = \<lparr> Key = Memcached_lockKey l,
                   Value = Memcached_ownerID l,
                   Expiration = Seconds (Memcached_lockTimeout l) \<rparr> in
      case Replace item w of
        (Some err, w1) \<Rightarrow>
          if err = ErrNotStored
          then (Return (Some (Errorf ''lock is not held by this owner anymore'')), l, w1)
          else (Return (Some (Wrapf ''failed to renew lock: '' err)), l, w1)
      | (None, w1) \<Rightarrow> (Return None, l, w1))"

section \<open>The transactional-upsert adapters\<close>

subsection \<open>The relational store, as GORM shows it\<close>

text \<open>
  The table of \<^verbatim>\<open>Lock\<close> rows, keyed by the unique column \<^verbatim>\<open>name\<close>. A duplicate name on
  insert is reported in the driver's own way: error 1062 by MySQL, SQLSTATE 23505 by
  PostgreSQL. On PostgreSQL a statement that failed inside a transaction aborts the
  transaction: every later statement of it fails with SQLSTATE 25P02.
\<close>

record Lock =
  ID :: nat
  Name :: string
  OwnerID :: string
  ExpiredAt :: Time
  CreatedAt :: Time
  UpdatedAt :: Time

datatype dialect = MySQL | PostgreSQL

record gorm =
  rows :: "string \<rightharpoonup> Lock"
  next_id :: nat
  dialect :: dialect
  tx_aborted :: bool
  g_down :: bool

definition duplicate_error :: "dialect \<Rightarrow> error" where
  "duplicate_error d = (case d of MySQL \<Rightarrow> MySQLError 1062 | PostgreSQL \<Rightarrow> PgError ''23505'')"

definition refused :: "gorm world \<Rightarrow> error option" where
  "refused w =
     (if g_down (backend w) then Some Transport
      else if tx_aborted (backend w) then Some (PgError ''25P02'')
      else None)"

definition Create :: "Lock \<Rightarrow> gorm world \<Rightarrow> error option \<times> gorm world" where
  "Create r w =
     (let w' = emit (EvCall ''Create'' [Name r, OwnerID r]) w in
      case refused w of
        Some err \<Rightarrow> (Some err, w')
      | None \<Rightarrow>
          if rows (backend w) (Name r) \<noteq> None
          then (Some (duplicate_error (dialect (backend w))),
                w'\<lparr>backend := (backend w)\<lparr>tx_aborted := (dialect (backend w) = PostgreSQL)\<rparr>\<rparr>)
          else (None,
                w'\<lparr>backend := (backend w)
                   \<lparr>rows := (rows (backend w))
                      (Name r \<mapsto> r\<lparr>ID := next_id (backend w), CreatedAt := now w, UpdatedAt := now w\<rparr>),
                    next_id := next_id (backend w) + 1\<rparr>\<rparr>))"

definition First :: "string \<Rightarrow> gorm world \<Rightarrow> (error + Lock) \<times> gorm world" where
  "First n w =
     (let w' = emit (EvCall ''First'' [n]) w in
      case refused w of
        Some err \<Rightarrow> (Inl err, w')
      | None \<Rightarrow>
          (case rows (backend w) n of
             None \<Rightarrow> (Inl ErrRecordNotFound, w')
           | Some r \<Rightarrow> (Inr r, w')))"

definition Save :: "Lock \<Rightarrow> gorm world \<Rightarrow> error option \<times> gorm world" where
  "Save r w =
     (let w' = emit (EvCall ''Save'' [Name r, OwnerID r]) w in
      case refused w of
        Some err \<Rightarrow> (Some err, w')
      | None \<Rightarrow>
          (None, w'\<lparr>backend := (backend w)
                    \<lparr>rows := (rows (backend w))(Name r \<mapsto> r\<lparr>UpdatedAt := now w\<rparr>)\<rparr>\<rparr>))"

definition Delete_where_name :: "string \<Rightarrow> gorm world \<Rightarrow> error option \<times> gorm world" where
  "Delete_where_name n w =
     (let w' = emit (EvCall ''Delete'' [n]) w in
      case refused w of
        Some err \<Rightarrow> (Some err, w')
      | None \<Rightarrow> (None, w'\<lparr>backend := (backend w)\<lparr>rows := (rows (backend w))(n := None)\<rparr>\<rparr>))"

definition Update_expired_at :: "string \<Rightarrow> Time \<Rightarrow> gorm world \<Rightarrow> error option \<times> gorm world" where
  "Update_expired_at n t w =
     (let w' = emit (EvCall ''Update'' [n]) w in
      case refused w of
        Some err \<Rightarrow> (Some err, w')
      | None \<Rightarrow>
          (case rows (backend w) n of
             None \<Rightarrow> (None, w')
           | Some r \<Rightarrow>
               (None, w'\<lparr>backend := (backend w)
                         \<lparr>rows := (rows (backend w))(n \<mapsto> r\<lparr>ExpiredAt := t, UpdatedAt := now w\<rparr>)\<rparr>\<rparr>)))"

text \<open>
  \<^verbatim>\<open>db.Transaction(fc)\<close>: the rows written by \<open>fc\<close> are kept when it returns nil and
  are rolled back when it returns an error or panics. What \<open>fc\<close> did outside the
  database stays done.
\<close>

definition Transaction ::
  "(gorm world \<Rightarrow> error option outcome \<times> 'l \<times> gorm world) \<Rightarrow> gorm world
     \<Rightarrow> error option outcome \<times> 'l \<times> gorm world" where
  "Transaction fc w =
     (case fc (w\<lparr>backend := (backend w)\<lparr>tx_aborted := False\<rparr>\<rparr>) of
        (Return None, l, w1) \<Rightarrow>
          (Return None, l, w1\<lparr>backend := (backend w1)\<lparr>tx_aborted := False\<rparr>\<rparr>)
      | (r, l, w1) \<Rightarrow>
          (r, l, w1\<lparr>backend := (backend w1)
                    \<lparr>rows := rows (backend w), next_id := next_id (backend w),
                     tx_aborted := False\<rparr>\<rparr>))"

subsection \<open>GORMLocker\<close>

record GORMLocker =
  GORM_lockName :: string
  GORM_lockTimeout :: Duration
  GORM_renewTicker :: "nat option"
  GORM_stopChan :: chan
  GORM_ownerID :: string
  GORM_logger :: Logger

text \<open>\<open>migrate\<close> is what \<^verbatim>\<open>db.AutoMigrate\<close> returned.\<close>

definition NewGORMLocker :: "error option \<Rightarrow> string \<Rightarrow> Option list \<Rightarrow> error + GORMLocker" where
  "NewGORMLocker migrate hostname opts =
     (let cfg = ApplyOptions hostname opts in
      case migrate of
        Some err \<Rightarrow> Inl err
      | None \<Rightarrow>
          Inr \<lparr> GORM_lockName = lockName cfg,
                GORM_lockTimeout = lockTimeout cfg,
                GORM_renewTicker = None,
                GORM_stopChan = make_chan,
                GORM_ownerID = ownerID cfg,
                GORM_logger = logger cfg \<rparr>)"

definition isDuplicateEntry :: "error option \<Rightarrow> bool" where
  "isDuplicateEntry err =
     (case err of
        None \<Rightarrow> False
      | Some (MySQLError n) \<Rightarrow> n = 1062
      | Some (PgError c) \<Rightarrow> c = ''23505''
      | Some _ \<Rightarrow> False)"

text \<open>The end of the transaction body of \<^verbatim>\<open>Lock\<close>, from \<^verbatim>\<open>time.NewTicker\<close> on.\<close>

definition GORMLocker_Lock_acquired ::
  "GORMLocker \<Rightarrow> gorm world \<Rightarrow> error option outcome \<times> GORMLocker \<times> gorm world" where
  "GORMLocker_Lock_acquired l w =
     (case NewTicker (GORM_lockTimeout l sdiv 2) w of
        None \<Rightarrow> (Panic NewTicker_panic, l, w)
      | Some (t, w1) \<Rightarrow> (Return None, l\<lparr>GORM_renewTicker := Some t\<rparr>, go_renewLock w1))"

definition GORMLocker_Lock ::
  "GORMLocker \<Rightarrow> gorm world \<Rightarrow> error option outcome \<times> GORMLocker \<times> gorm world" where
  "GORMLocker_Lock l w =
     (let now0 = now w;
          expiredAt = now0 + GORM_lockTimeout l in
      Transaction (\<lambda>tx.
        case Create \<lparr> ID = 0, Name = GORM_lockName l, OwnerID = GORM_ownerID l,
                      ExpiredAt = expiredAt, CreatedAt = 0, UpdatedAt = 0 \<rparr> tx of
          (Some err, tx1) \<Rightarrow>
            if \<not> isDuplicateEntry (Some err) then (Return (Some err), l, tx1)
            else
              (case First (GORM_lockName l) tx1 of
                 (Inl err, tx2) \<Rightarrow> (Return (Some err), l, tx2)
               | (Inr lock, tx2) \<Rightarrow>
                   if \<not> ExpiredAt lock < now0
                   then (Return (Some (Errorf (''lock is already held by '' @ OwnerID lock))), l, tx2)
                   else
                     (case Save (lock\<lparr>OwnerID := GORM_ownerID l, ExpiredAt := expiredAt\<rparr>) tx2 of
                        (Some err, tx3) \<Rightarrow> (Return (Some err), l, tx3)
                      | (None, tx3) \<Rightarrow> GORMLocker_Lock_acquired l tx3))
        | (None, tx1) \<Rightarrow> GORMLocker_Lock_acquired l tx1) w)"

definition GORMLocker_Unlock ::
  "GORMLocker \<Rightarrow> gorm world \<Rightarrow> error option outcome \<times> GORMLocker \<times> gorm world" where
  "GORMLocker_Unlock l w =
     (let (l1, w1) = (case GORM_renewTicker l of
                        Some t \<Rightarrow> (l\<lparr>GORM_renewTicker := None\<rparr>, Stop t w)
                      | None \<Rightarrow> (l, w)) in
      case Delete_where_name (GORM_lockName l1) w1 of
        (Some err, w2) \<Rightarrow> (Return (Some err), l1, w2)
      | (None, w2) \<Rightarrow> (Return None, l1, w2))"

definition GORMLocker_Renew ::
  "GORMLocker \<Rightarrow> gorm world \<Rightarrow> error option outcome \<times> GORMLocker \<times> gorm world" where
  "GORMLocker_Renew l w =
     (let now0 = now w;
          expiredAt = now0 + GORM_lockTimeout l in
      case Update_expired_at (GORM_lockName l) expiredAt w of
        (Some err, w1) \<Rightarrow> (Return (Some err), l, w1)
      | (None, w1) \<Rightarrow> (Return None, l, w1))"

subsection \<open>The document store, as the MongoDB driver shows it\<close>

text \<open>
  The collection \<^verbatim>\<open>locks\<close>, its documents found by the value of their field \<^verbatim>\<open>name\<close>.
  \<^verbatim>\<open>UpdateOne\<close> with \<^verbatim>\<open>upsert\<close>: a document that matches the filter gets the fields of
  \<^verbatim>\<open>$set\<close> and is counted in \<^verbatim>\<open>MatchedCount\<close>; when none matches, a document is inserted
  from the filter, \<^verbatim>\<open>$set\<close> and \<^verbatim>\<open>$setOnInsert\<close>, and \<^verbatim>\<open>MatchedCount\<close> is \<open>0\<close>. A MongoDB
  server refuses an update that names one path under two operators (write error 40);
  \<open>strict_paths\<close> says whether this server does.
\<close>

datatype bson = BString string | BTime Time

type_synonym document = "string \<rightharpoonup> bson"

record mongo =
  docs :: "string \<rightharpoonup> document"
  strict_paths :: bool
  mg_down :: bool

record update =
  setOnInsert :: "(string \<times> bson) list"
  set_fields :: "(string \<times> bson) list"

record UpdateResult =
  MatchedCount :: nat
  ModifiedCount :: nat
  UpsertedCount :: nat

definition apply_fields :: "(string \<times> bson) list \<Rightarrow> document \<Rightarrow> document" where
  "apply_fields fs d = foldl (\<lambda>m (k, v). m(k \<mapsto> v)) d fs"

definition conflicting_paths :: "update \<Rightarrow> bool" where
  "conflicting_paths u =
     (filter (\<lambda>k. k \<in> set (map fst (setOnInsert u))) (map fst (set_fields u)) \<noteq> [])"

definition UpdateOne ::
  "string \<Rightarrow> update \<Rightarrow> bool \<Rightarrow> mongo world \<Rightarrow> (error + UpdateResult) \<times> mongo world" where
  "UpdateOne n u upsert w =
     (let w' = emit (EvCall ''UpdateOne'' [n]) w in
      if mg_down (backend w) then (Inl Transport, w')
      else if strict_paths (backend w) \<and> conflicting_paths u then (Inl (WriteError 40), w')
      else case docs (backend w) n of
             Some d \<Rightarrow>
               (Inr \<lparr> MatchedCount = 1,
                      ModifiedCount = (if apply_fields (set_fields u) d = d then 0 else 1),
                      UpsertedCount = 0 \<rparr>,
                w'\<lparr>backend := (backend w)
                   \<lparr>docs := (docs (backend w))(n \<mapsto> apply_fields (set_fields u) d)\<rparr>\<rparr>)
           | None \<Rightarrow>
               if upsert
               then (Inr \<lparr> MatchedCount = 0, ModifiedCount = 0, UpsertedCount = 1 \<rparr>,
                     w'\<lparr>backend := (backend w)
                        \<lparr>docs := (docs (backend w))
                           (n \<mapsto> apply_fields (setOnInsert u)
                                  (apply_fields (set_fields u) [''name'' \<mapsto> BString n]))\<rparr>\<rparr>)
               else (Inr \<lparr> MatchedCount = 0, ModifiedCount = 0, UpsertedCount = 0 \<rparr>, w'))"

definition DeleteOne :: "string \<Rightarrow> mongo world \<Rightarrow> error option \<times> mongo world" where
  "DeleteOne n w =
     (let w' = emit (EvCall ''DeleteOne'' [n]) w in
      if mg_down (backend w) then (Some Transport, w')
      else (None, w'\<lparr>backend := (backend w)\<lparr>docs := (docs (backend w))(n := None)\<rparr>\<rparr>))"

subsection \<open>MongoLocker\<close>

record MongoLocker =
  Mongo_lockName :: string
  Mongo_lockTimeout :: Duration
  Mongo_renewTicker :: "nat option"
  Mongo_stopChan :: chan
  Mongo_ownerID :: string
  Mongo_logger :: Logger

text \<open>\<open>connect\<close> is the error that \<^verbatim>\<open>mongo.Connect\<close> returned.\<close>

definition NewMongoLocker :: "error option \<Rightarrow> string \<Rightarrow> Option list \<Rightarrow> error + MongoLocker" where
  "NewMongoLocker connect hostname opts =
     (let cfg = ApplyOptions hostname opts in
      case connect of
        Some err \<Rightarrow> Inl err
      | None \<Rightarrow>
          Inr \<lparr> Mongo_lockName = lockName cfg,
                Mongo_lockTimeout = lockTimeout cfg,
                Mongo_renewTicker = None,
                Mongo_stopChan = make_chan,
                Mongo_ownerID = ownerID cfg,
                Mongo_logger = logger cfg \<rparr>)"

definition MongoLocker_Lock ::
  "MongoLocker \<Rightarrow> mongo world \<Rightarrow> error option outcome \<times> MongoLocker \<times> mongo world" where
  "MongoLocker_Lock l w =
     (let now0 = now w;
          expiredAt = now0 + Mongo_lockTimeout l;
          upd = \<lparr> setOnInsert = [(''ownerID'', BString (Mongo_ownerID l)), (''expiredAt'', BTime expiredAt)],
                  set_fields = [(''ownerID'', BString (Mongo_ownerID l)), (''expiredAt'', BTime expiredAt)] \<rparr> in
      case UpdateOne (Mongo_lockName l) upd True w of
        (Inl err, w1) \<Rightarrow> (Return (Some (Wrapf ''failed to acquire lock: '' err)), l, w1)
      | (Inr result, w1) \<Rightarrow>
          if MatchedCount result = 0
          then (Return (Some (Errorf ''lock is already held by another owner'')), l, w1)
          else
            (case NewTicker (Mongo_lockTimeout l sdiv 2) w1 of
               None \<Rightarrow> (Panic NewTicker_panic, l, w1)
             | Some (t, w2) \<Rightarrow> (Return None, l\<lparr>Mongo_renewTicker := Some t\<rparr>, go_renewLock w2)))"

definition MongoLocker_Unlock ::
  "MongoLocker \<Rightarrow> mongo world \<Rightarrow> error option outcome \<times> MongoLocker \<times> mongo world" where
  "MongoLocker_Unlock l w =
     (let (l1, w1) = (case Mongo_renewTicker l of
                        Some t \<Rightarrow> (l\<lparr>Mongo_renewTicker := None\<rparr>, Stop t w)
                      | None \<Rightarrow> (l, w)) in
      case DeleteOne (Mongo_lockName l1) w1 of
        (Some err, w2) \<Rightarrow> (Return (Some (Wrapf ''failed to release lock: '' err)), l1, w2)
      | (None, w2) \<Rightarrow> (Return None, l1\<lparr>Mongo_ownerID := []\<rparr>, w2))"

definition MongoLocker_Renew ::
  "MongoLocker \<Rightarrow> mongo world \<Rightarrow> error option outcome \<times> MongoLocker \<times> mongo world" where
  "MongoLocker_Renew l w =
     (let now0 = now w;
          expiredAt = now0 + Mongo_lockTimeout l;
          upd = \<lparr> setOnInsert = [], set_fields = [(''expiredAt'', BTime expiredAt)] \<rparr> in
      case UpdateOne (Mongo_lockName l) upd False w of
        (Inl err, w1) \<Rightarrow> (Return (Some (Wrapf ''failed to renew lock: '' err)), l, w1)
      | (Inr result, w1) \<Rightarrow> (Return None, l, w1))"

section \<open>The lease-based adapter\<close>

subsection \<open>The etcd store, as the clientv3 client shows it\<close>

text \<open>
  A lease has a time-to-live in seconds and an instant at which it expires unless kept
  alive; a key holds a value and the lease it is attached to, and is gone once that
  lease has expired or been revoked. \<^verbatim>\<open>Put\<close> writes the key whether or not it exists.
\<close>

record etcd =
  leases :: "int \<rightharpoonup> (int \<times> Time)"
  kv :: "string \<rightharpoonup> (string \<times> int)"
  next_lease :: int
  e_down :: bool

definition lease_live :: "etcd world \<Rightarrow> int \<Rightarrow> bool" where
  "lease_live w i = (case leases (backend w) i of None \<Rightarrow> False | Some (ttl, e) \<Rightarrow> now w < e)"

definition etcd_get :: "etcd world \<Rightarrow> string \<Rightarrow> (string \<times> int) option" where
  "etcd_get w k =
     (case kv (backend w) k of
        None \<Rightarrow> None
      | Some (v, i) \<Rightarrow> if lease_live w i then Some (v, i) else None)"

definition Grant :: "int \<Rightarrow> etcd world \<Rightarrow> (error + int) \<times> etcd world" where
  "Grant ttl w =
     (let w' = emit (EvCall ''Grant'' []) w in
      if e_down (backend w) then (Inl Transport, w')
      else (Inr (next_lease (backend w)),
            w'\<lparr>backend := (backend w)
               \<lparr>leases := (leases (backend w))(next_lease (backend w) \<mapsto> (ttl, now w + ttl * Second)),
                next_lease := next_lease (backend w) + 1\<rparr>\<rparr>))"

definition Put :: "string \<Rightarrow> string \<Rightarrow> int \<Rightarrow> etcd world \<Rightarrow> error option \<times> etcd world" where
  "Put k v i w =
     (let w' = emit (EvCall ''Put'' [k, v]) w in
      if e_down (backend w) then (Some Transport, w')
      else if \<not> lease_live w i then (Some ErrLeaseNotFound, w')
      else (None, w'\<lparr>backend := (backend w)\<lparr>kv := (kv (backend w))(k \<mapsto> (v, i))\<rparr>\<rparr>))"

definition etcd_Delete :: "string \<Rightarrow> etcd world \<Rightarrow> error option \<times> etcd world" where
  "etcd_Delete k w =
     (let w' = emit (EvCall ''Delete'' [k]) w in
      if e_down (backend w) then (Some Transport, w')
      else (None, w'\<lparr>backend := (backend w)\<lparr>kv := (kv (backend w))(k := None)\<rparr>\<rparr>))"

definition Revoke :: "int \<Rightarrow> etcd world \<Rightarrow> error option \<times> etcd world" where
  "Revoke i w =
     (let w' = emit (EvCall ''Revoke'' []) w in
      if e_down (backend w) then (Some Transport, w')
      else if \<not> lease_live w i then (Some ErrLeaseNotFound, w')
      else (None,
            w'\<lparr>backend := (backend w)
               \<lparr>leases := (leases (backend w))(i := None),
                kv := (\<lambda>k. case kv (backend w) k of
                              None \<Rightarrow> None
                            | Some (v, j) \<Rightarrow> if j = i then None else Some (v, j))\<rparr>\<rparr>))"

definition KeepAliveOnce :: "int \<Rightarrow> etcd world \<Rightarrow> error option \<times> etcd world" where
  "KeepAliveOnce i w =
     (let w' = emit (EvCall ''KeepAliveOnce'' []) w in
      if e_down (backend w) then (Some Transport, w')
      else case leases (backend w) i of
             None \<Rightarrow> (Some ErrLeaseNotFound, w')
           | Some (ttl, e) \<Rightarrow>
               if \<not> now w < e then (Some ErrLeaseNotFound, w')
               else (None, w'\<lparr>backend := (backend w)
                              \<lparr>leases := (leases (backend w))(i \<mapsto> (ttl, now w + ttl * Second))\<rparr>\<rparr>))"

subsection \<open>EtcdLocker\<close>

record EtcdLocker =
  Etcd_leaseID :: int
  Etcd_lockKey :: string
  Etcd_lockTimeout :: Duration
  Etcd_renewTicker :: "nat option"
  Etcd_stopChan :: chan
  Etcd_ownerID :: string
  Etcd_logger :: Logger

text \<open>\<open>connect\<close> is the error that \<^verbatim>\<open>clientv3.New\<close> returned.\<close>

definition NewEtcdLocker :: "error option \<Rightarrow> string \<Rightarrow> Option list \<Rightarrow> error + EtcdLocker" where
  "NewEtcdLocker connect hostname opts =
     (let cfg = ApplyOptions hostname opts in
      case connect of
        Some err \<Rightarrow> Inl err
      | None \<Rightarrow>
          Inr \<lparr> Etcd_leaseID = 0,
                Etcd_lockKey = lockName cfg,
                Etcd_lockTimeout = lockTimeout cfg,
                Etcd_renewTicker = None,
                Etcd_stopChan = make_chan,
                Etcd_ownerID = ownerID cfg,
                Etcd_logger = logger cfg \<rparr>)"

definition EtcdLocker_Lock ::
  "EtcdLocker \<Rightarrow> etcd world \<Rightarrow> error option outcome \<times> EtcdLocker \<times> etcd world" where
  "EtcdLocker_Lock l w =
     (case Grant (Seconds (Etcd_lockTimeout l)) w of
        (Inl err, w1) \<Rightarrow> (Return (Some err), l, w1)
      | (Inr leaseResp_ID, w1) \<Rightarrow>
          (let l1 = l\<lparr>Etcd_leaseID := leaseResp_ID\<rparr> in
           case Put (Etcd_lockKey l1) (Etcd_ownerID l1) leaseResp_ID w1 of
             (Some err, w2) \<Rightarrow> (Return (Some (Wrapf ''failed to acquire lock: '' err)), l1, w2)
           | (None, w2) \<Rightarrow>
               (case NewTicker (Etcd_lockTimeout l1 sdiv 2) w2 of
                  None \<Rightarrow> (Panic NewTicker_panic, l1, w2)
                | Some (t, w3) \<Rightarrow> (Return None, l1\<lparr>Etcd_renewTicker := Some t\<rparr>, go_renewLock w3))))"

definition EtcdLocker_Unlock ::
  "EtcdLocker \<Rightarrow> etcd world \<Rightarrow> error option outcome \<times> EtcdLocker \<times> etcd world" where
  "EtcdLocker_Unlock l w =
     (let (l1, w1) = (case Etcd_renewTicker l of
                        Some t \<Rightarrow> (l\<lparr>Etcd_renewTicker := None\<rparr>, Stop t w)
                      | None \<Rightarrow> (l, w)) in
      case etcd_Delete (Etcd_lockKey l1) w1 of
        (Some err, w2) \<Rightarrow> (Return (Some err), l1, w2)
      | (None, w2) \<Rightarrow>
          (case Revoke (Etcd_leaseID l1) w2 of
             (Some err, w3) \<Rightarrow> (Return (Some (Wrapf ''failed to revoke lease: '' err)), l1, w3)
           | (None, w3) \<Rightarrow> (Return None, l1, w3)))"

definition EtcdLocker_Renew ::
  "EtcdLocker \<Rightarrow> etcd world \<Rightarrow> error option outcome \<times> EtcdLocker \<times> etcd world" where
  "EtcdLocker_Renew l w =
     (case KeepAliveOnce (Etcd_leaseID l) w of
        (err, w1) \<Rightarrow> (Return err, l, w1))"

section \<open>The session-based adapters\<close>

subsection \<open>The Consul agent, as the api client shows it\<close>

text \<open>
  Sessions are named by identifiers the agent makes up; a session has a time-to-live
  and an instant at which it lapses unless renewed. \<^verbatim>\<open>KV().Put\<close> writes the pair whether
  or not the key exists, and does not take the \<^verbatim>\<open>Session\<close> field of the pair into account
  (only \<^verbatim>\<open>Acquire\<close> does). \<^verbatim>\<open>Session().Renew\<close> renews a live session; what it returns
  for an identifier that names none is \<open>unknown_renewal\<close>: no error when the agent
  answers that there is no such session (the client then returns no entry and no
  error), an error when the agent refuses the request.
\<close>

record consul =
  sessions :: "string \<rightharpoonup> (Duration \<times> Time)"
  kvs :: "string \<rightharpoonup> string"
  next_session :: nat
  unknown_renewal :: "error option"
  c_down :: bool

definition session_name :: "nat \<Rightarrow> string" where
  "session_name n = ''session-'' @ replicate n (CHR ''1'')"

definition Session_Create :: "Duration \<Rightarrow> consul world \<Rightarrow> (error + string) \<times> consul world" where
  "Session_Create ttl w =
     (let w' = emit (EvCall ''Session.Create'' []) w in
      if c_down (backend w) then (Inl Transport, w')
      else (Inr (session_name (next_session (backend w))),
            w'\<lparr>backend := (backend w)
               \<lparr>sessions := (sessions (backend w))
                  (session_name (next_session (backend w)) \<mapsto> (ttl, now w + ttl)),
                next_session := next_session (backend w) + 1\<rparr>\<rparr>))"

definition KV_Put :: "string \<Rightarrow> string \<Rightarrow> string \<Rightarrow> consul world \<Rightarrow> error option \<times> consul world" where
  "KV_Put k v session w =
     (let w' = emit (EvCall ''KV.Put'' [k, v, session]) w in
      if c_down (backend w) then (Some Transport, w')
      else (None, w'\<lparr>backend := (backend w)\<lparr>kvs := (kvs (backend w))(k \<mapsto> v)\<rparr>\<rparr>))"

definition KV_Delete :: "string \<Rightarrow> consul world \<Rightarrow> error option \<times> consul world" where
  "KV_Delete k w =
     (let w' = emit (EvCall ''KV.Delete'' [k]) w in
      if c_down (backend w) then (Some Transport, w')
      else (None, w'\<lparr>backend := (backend w)\<lparr>kvs := (kvs (backend w))(k := None)\<rparr>\<rparr>))"

definition Session_Renew :: "string \<Rightarrow> consul world \<Rightarrow> error option \<times> consul world" where
  "Session_Renew i w =
     (let w' = emit (EvCall ''Session.Renew'' [i]) w in
      if c_down (backend w) then (Some Transport, w')
      else case sessions (backend w) i of
             None \<Rightarrow> (unknown_renewal (backend w), w')
           | Some (ttl, e) \<Rightarrow>
               if \<not> now w < e then (unknown_renewal (backend w), w')
               else (None, w'\<lparr>backend := (backend w)
                              \<lparr>sessions := (sessions (backend w))(i \<mapsto> (ttl, now w + ttl))\<rparr>\<rparr>))"

subsection \<open>ConsulLocker\<close>

record ConsulLocker =
  Consul_lockKey :: string
  Consul_lockTimeout :: Duration
  Consul_renewTicker :: "nat option"
  Consul_stopChan :: chan
  Consul_ownerID :: string
  Consul_logger :: Logger

text \<open>\<open>connect\<close> is the error that \<^verbatim>\<open>api.NewClient\<close> returned.\<close>

definition NewConsulLocker :: "error option \<Rightarrow> string \<Rightarrow> Option list \<Rightarrow> error + ConsulLocker" where
  "NewConsulLocker connect hostname opts =
     (let cfg = ApplyOptions hostname opts in
      case connect of
        Some err \<Rightarrow> Inl err
      | None \<Rightarrow>
          Inr \<lparr> Consul_lockKey = lockName cfg,
                Consul_lockTimeout = lockTimeout cfg,
                Consul_renewTicker = None,
                Consul_stopChan = make_chan,
                Consul_ownerID = ownerID cfg,
                Consul_logger = logger cfg \<rparr>)"

definition ConsulLocker_Lock ::
  "ConsulLocker \<Rightarrow> consul world \<Rightarrow> error option outcome \<times> ConsulLocker \<times> consul world" where
  "ConsulLocker_Lock l w =
     (case Session_Create (Consul_lockTimeout l) w of
        (Inl err, w1) \<Rightarrow> (Return (Some (Wrapf ''failed to create session: '' err)), l, w1)
      | (Inr sessionID, w1) \<Rightarrow>
          (case KV_Put (Consul_lockKey l) (Consul_ownerID l) sessionID w1 of
             (Some err, w2) \<Rightarrow> (Return (Some (Wrapf ''failed to acquire lock: '' err)), l, w2)
           | (None, w2) \<Rightarrow>
               (case NewTicker (Consul_lockTimeout l sdiv 2) w2 of
                  None \<Rightarrow> (Panic NewTicker_panic, l, w2)
                | Some (t, w3) \<Rightarrow> (Return None, l\<lparr>Consul_renewTicker := Some t\<rparr>, go_renewLock w3))))"

definition ConsulLocker_Unlock ::
  "ConsulLocker \<Rightarrow> consul world \<Rightarrow> error option outcome \<times> ConsulLocker \<times> consul world" where
  "ConsulLocker_Unlock l w =
     (let (l1, w1) = (case Consul_renewTicker l of
                        Some t \<Rightarrow> (l\<lparr>Consul_renewTicker := None\<rparr>, Stop t w)
                      | None \<Rightarrow> (l, w)) in
      case KV_Delete (Consul_lockKey l1) w1 of
        (Some err, w2) \<Rightarrow> (Return (Some (Wrapf ''failed to release lock: '' err)), l1, w2)
      | (None, w2) \<Rightarrow> (Return None, l1, w2))"

definition ConsulLocker_Renew ::
  "ConsulLocker \<Rightarrow> consul world \<Rightarrow> error option outcome \<times> ConsulLocker \<times> consul world" where
  "ConsulLocker_Renew l w =
     (case Session_Renew (Consul_ownerID l) w of
        (Some err, w1) \<Rightarrow> (Return (Some (Wrapf ''failed to renew lock: '' err)), l, w1)
      | (None, w1) \<Rightarrow> (Return None, l, w1))"

subsection \<open>The ZooKeeper ensemble, as the zk client shows it\<close>

text \<open>
  A node holds data and, when it is ephemeral, the session that owns it; the ensemble
  deletes the ephemeral nodes of a session when the session ends, and no others.
  \<^verbatim>\<open>Create\<close> makes an ephemeral node exactly when the bit \<^verbatim>\<open>zk.FlagEphemeral\<close> of its
  flags is set. It fails with \<^verbatim>\<open>ErrNodeExists\<close> on a path that exists and with
  \<^verbatim>\<open>ErrNoNode\<close> when the parent of the path does not.
\<close>

record zookeeper =
  nodes :: "string \<rightharpoonup> (string \<times> nat option)"
  session :: nat
  z_down :: bool

definition FlagEphemeral :: "32 word" where
  "FlagEphemeral = 1"

definition parent_path :: "string \<Rightarrow> string" where
  "parent_path p = rev (tl (dropWhile (\<lambda>c. c \<noteq> CHR ''/'') (rev p)))"

definition zk_Create :: "string \<Rightarrow> string \<Rightarrow> 32 word \<Rightarrow> zookeeper world \<Rightarrow> error option \<times> zookeeper world" where
  "zk_Create p d flags w =
     (let w' = emit (EvCall ''Create'' [p]) w in
      if z_down (backend w) then (Some Transport, w')
      else if nodes (backend w) p \<noteq> None then (Some ErrNodeExists, w')
      else if parent_path p \<noteq> [] \<and> nodes (backend w) (parent_path p) = None then (Some ErrNoNode, w')
      else (None,
            w'\<lparr>backend := (backend w)
               \<lparr>nodes := (nodes (backend w))
                  (p \<mapsto> (d, if flags AND FlagEphemeral \<noteq> 0 then Some (session (backend w)) else None))\<rparr>\<rparr>))"

definition zk_Delete :: "string \<Rightarrow> zookeeper world \<Rightarrow> error option \<times> zookeeper world" where
  "zk_Delete p w =
     (let w' = emit (EvCall ''Delete'' [p]) w in
      if z_down (backend w) then (Some Transport, w')
      else if nodes (backend w) p = None then (Some ErrNoNode, w')
      else (None, w'\<lparr>backend := (backend w)\<lparr>nodes := (nodes (backend w))(p := None)\<rparr>\<rparr>))"

text \<open>The end of a client session, as the ensemble handles it.\<close>

definition session_ended :: "nat \<Rightarrow> zookeeper \<Rightarrow> zookeeper" where
  "session_ended sid z =
     z\<lparr>nodes := (\<lambda>p. case nodes z p of
                        None \<Rightarrow> None
                      | Some (d, own) \<Rightarrow> if own = Some sid then None else Some (d, own))\<rparr>"

subsection \<open>ZookeeperLocker\<close>

record ZookeeperLocker =
  Zookeeper_lockPath :: string
  Zookeeper_lockTimeout :: Duration
  Zookeeper_renewTicker :: "nat option"
  Zookeeper_stopChan :: chan
  Zookeeper_ownerID :: string
  Zookeeper_logger :: Logger

text \<open>\<open>connect\<close> is the error that \<^verbatim>\<open>zk.Connect\<close> returned.\<close>

definition NewZookeeperLocker :: "error option \<Rightarrow> string \<Rightarrow> Option list \<Rightarrow> error + ZookeeperLocker" where
  "NewZookeeperLocker connect hostname opts =
     (let cfg = ApplyOptions hostname opts in
      case connect of
        Some err \<Rightarrow> Inl err
      | None \<Rightarrow>
          Inr \<lparr> Zookeeper_lockPath = lockName cfg,
                Zookeeper_lockTimeout = lockTimeout cfg,
                Zookeeper_renewTicker = None,
                Zookeeper_stopChan = make_chan,
                Zookeeper_ownerID = ownerID cfg,
                Zookeeper_logger = logger cfg \<rparr>)"

definition ZookeeperLocker_Lock ::
  "ZookeeperLocker \<Rightarrow> zookeeper world \<Rightarrow> error option outcome \<times> ZookeeperLocker \<times> zookeeper world" where
  "ZookeeperLocker_Lock l w =
     (let lockNode = Zookeeper_lockPath l @ ''/'' @ Zookeeper_ownerID l in
      case zk_Create lockNode [] 0 w of
        (Some err, w1) \<Rightarrow>
          if err = ErrNodeExists
          then (Return (Some (Errorf ''lock is already held by another owner'')), l, w1)
          else (Return (Some (Wrapf ''failed to acquire lock: '' err)), l, w1)
      | (None, w1) \<Rightarrow>
          (case NewTicker (Zookeeper_lockTimeout l sdiv 2) w1 of
             None \<Rightarrow> (Panic NewTicker_panic, l, w1)
           | Some (t, w2) \<Rightarrow> (Return None, l\<lparr>Zookeeper_renewTicker := Some t\<rparr>, go_renewLock w2)))"

definition ZookeeperLocker_Unlock ::
  "ZookeeperLocker \<Rightarrow> zookeeper world \<Rightarrow> error option outcome \<times> ZookeeperLocker \<times> zookeeper world" where
  "ZookeeperLocker_Unlock l w =
     (let (l1, w1) = (case Zookeeper_renewTicker l of
                        Some t \<Rightarrow> (l\<lparr>Zookeeper_renewTicker := None\<rparr>, Stop t w)
                      | None \<Rightarrow> (l, w));
          lockNode = Zookeeper_lockPath l1 @ ''/'' @ Zookeeper_ownerID l1 in
      case zk_Delete lockNode w1 of
        (Some err, w2) \<Rightarrow> (Return (Some (Wrapf ''failed to release lock: '' err)), l1, w2)
      | (None, w2) \<Rightarrow> (Return None, l1\<lparr>Zookeeper_ownerID := []\<rparr>, w2))"

definition ZookeeperLocker_Renew ::
  "ZookeeperLocker \<Rightarrow> zookeeper world \<Rightarrow> error option outcome \<times> ZookeeperLocker \<times> zookeeper world" where
  "ZookeeperLocker_Renew l w = (Return None, l, w)"

section \<open>The adapter without a store\<close>

subsection \<open>NoopLocker\<close>

text \<open>
  \<^verbatim>\<open>NoopLocker\<close> talks to no store: its methods only run the ticker and the goroutine.
  It keeps the timeout, the owner and the logger of its options, and no lock name.
\<close>

record NoopLocker =
  Noop_lockTimeout :: Duration
  Noop_renewTicker :: "nat option"
  Noop_stopChan :: chan
  Noop_ownerID :: string
  Noop_logger :: Logger

definition NewNoopLocker :: "string \<Rightarrow> Option list \<Rightarrow> NoopLocker" where
  "NewNoopLocker hostname opts =
     (let cfg = ApplyOptions hostname opts in
      \<lparr> Noop_lockTimeout = lockTimeout cfg,
        Noop_renewTicker = None,
        Noop_stopChan = make_chan,
        Noop_ownerID = ownerID cfg,
        Noop_logger = logger cfg \<rparr>)"

definition NoopLocker_Lock ::
  "NoopLocker \<Rightarrow> unit world \<Rightarrow> error option outcome \<times> NoopLocker \<times> unit world" where
  "NoopLocker_Lock l w =
     (case NewTicker (Noop_lockTimeout l sdiv 2) w of
        None \<Rightarrow> (Panic NewTicker_panic, l, w)
      | Some (t, w1) \<Rightarrow> (Return None, l\<lparr>Noop_renewTicker := Some t\<rparr>, go_renewLock w1))"

definition NoopLocker_Unlock ::
  "NoopLocker \<Rightarrow> unit world \<Rightarrow> error option outcome \<times> NoopLocker \<times> unit world" where
  "NoopLocker_Unlock l w =
     (let (l1, w1) = (case Noop_renewTicker l of
                        Some t \<Rightarrow> (l\<lparr>Noop_renewTicker := None\<rparr>, Stop t w)
                      | None \<Rightarrow> (l, w)) in
      (Return None, l1\<lparr>Noop_ownerID := []\<rparr>, w1))"

definition NoopLocker_Renew ::
  "NoopLocker \<Rightarrow> unit world \<Rightarrow> error option outcome \<times> NoopLocker \<times> unit world" where
  "NoopLocker_Renew l w = (Return None, l, w)"

section \<open>The Locker interface\<close>

text \<open>
  The eight implementations of the interface \<^verbatim>\<open>Locker\<close>, each a locker together with
  the store its client talks to and the runtime it runs in. The three methods are
  dispatched on the implementation; each runs under the mutex of its locker, from
  \<^verbatim>\<open>l.mu.Lock()\<close> to the deferred \<^verbatim>\<open>l.mu.Unlock()\<close>, so it is one step.
\<close>

datatype Locker =
    Redis RedisLocker "redis world"
  | Memcached MemcachedLocker "memcached world"
  | GORM GORMLocker "gorm world"
  | Mongo MongoLocker "mongo world"
  | Etcd EtcdLocker "etcd world"
  | Consul ConsulLocker "consul world"
  | Zookeeper ZookeeperLocker "zookeeper world"
  | Noop NoopLocker "unit world"

fun Locker_Lock :: "Locker \<Rightarrow> error option outcome \<times> Locker" where
  "Locker_Lock (Redis l w) = (case RedisLocker_Lock l w of (r, l', w') \<Rightarrow> (r, Redis l' w'))"
| "Locker_Lock (Memcached l w) = (case MemcachedLocker_Lock l w of (r, l', w') \<Rightarrow> (r, Memcached l' w'))"
| "Locker_Lock (GORM l w) = (case GORMLocker_Lock l w of (r, l', w') \<Rightarrow> (r, GORM l' w'))"
| "Locker_Lock (Mongo l w) = (case MongoLocker_Lock l w of (r, l', w') \<Rightarrow> (r, Mongo l' w'))"
| "Locker_Lock (Etcd l w) = (case EtcdLocker_Lock l w of (r, l', w') \<Rightarrow> (r, Etcd l' w'))"
| "Locker_Lock (Consul l w) = (case ConsulLocker_Lock l w of (r, l', w') \<Rightarrow> (r, Consul l' w'))"
| "Locker_Lock (Zookeeper l w) = (case ZookeeperLocker_Lock l w of (r, l', w') \<Rightarrow> (r, Zookeeper l' w'))"
| "Locker_Lock (Noop l w) = (case NoopLocker_Lock l w of (r, l', w') \<Rightarrow> (r, Noop l' w'))"

fun Locker_Unlock :: "Locker \<Rightarrow> error option outcome \<times> Locker" where
  "Locker_Unlock (Redis l w) = (case RedisLocker_Unlock l w of (r, l', w') \<Rightarrow> (r, Redis l' w'))"
| "Locker_Unlock (Memcached l w) = (case MemcachedLocker_Unlock l w of (r, l', w') \<Rightarrow> (r, Memcached l' w'))"
| "Locker_Unlock (GORM l w) = (case GORMLocker_Unlock l w of (r, l', w') \<Rightarrow> (r, GORM l' w'))"
| "Locker_Unlock (Mongo l w) = (case MongoLocker_Unlock l w of (r, l', w') \<Rightarrow> (r, Mongo l' w'))"
| "Locker_Unlock (Etcd l w) = (case EtcdLocker_Unlock l w of (r, l', w') \<Rightarrow> (r, Etcd l' w'))"
| "Locker_Unlock (Consul l w) = (case ConsulLocker_Unlock l w of (r, l', w') \<Rightarrow> (r, Consul l' w'))"
| "Locker_Unlock (Zookeeper l w) = (case ZookeeperLocker_Unlock l w of (r, l', w') \<Rightarrow> (r, Zookeeper l' w'))"
| "Locker_Unlock (Noop l w) = (case NoopLocker_Unlock l w of (r, l', w') \<Rightarrow> (r, Noop l' w'))"

fun Locker_Renew :: "Locker \<Rightarrow> error option outcome \<times> Locker" where
  "Locker_Renew (Redis l w) = (case RedisLocker_Renew l w of (r, l', w') \<Rightarrow> (r, Redis l' w'))"
| "Locker_Renew (Memcached l w) = (case MemcachedLocker_Renew l w of (r, l', w') \<Rightarrow> (r, Memcached l' w'))"
| "Locker_Renew (GORM l w) = (case GORMLocker_Renew l w of (r, l', w') \<Rightarrow> (r, GORM l' w'))"
| "Locker_Renew (Mongo l w) = (case MongoLocker_Renew l w of (r, l', w') \<Rightarrow> (r, Mongo l' w'))"
| "Locker_Renew (Etcd l w) = (case EtcdLocker_Renew l w of (r, l', w') \<Rightarrow> (r, Etcd l' w'))"
| "Locker_Renew (Consul l w) = (case ConsulLocker_Renew l w of (r, l', w') \<Rightarrow> (r, Consul l' w'))"
| "Locker_Renew (Zookeeper l w) = (case ZookeeperLocker_Renew l w of (r, l', w') \<Rightarrow> (r, Zookeeper l' w'))"
| "Locker_Renew (Noop l w) = (case NoopLocker_Renew l w of (r, l', w') \<Rightarrow> (r, Noop l' w'))"

text \<open>
  The configuration fields of a locker, read back as \<^verbatim>\<open>Options\<close>. \<^verbatim>\<open>NoopLocker\<close> has no
  field for the lock name, which reads as the empty string there.
\<close>

fun config :: "Locker \<Rightarrow> Options" where
  "config (Redis l w) = \<lparr> lockName = Redis_lockName l, lockTimeout = Redis_lockTimeout l,
                           ownerID = Redis_ownerID l, logger = Redis_logger l \<rparr>"
| "config (Memcached l w) = \<lparr> lockName = Memcached_lockKey l, lockTimeout = Memcached_lockTimeout l,
                               ownerID = Memcached_ownerID l, logger = Memcached_logger l \<rparr>"
| "config (GORM l w) = \<lparr> lockName = GORM_lockName l, lockTimeout = GORM_lockTimeout l,
                          ownerID = GORM_ownerID l, logger = GORM_logger l \<rparr>"
| "config (Mongo l w) = \<lparr> lockName = Mongo_lockName l, lockTimeout = Mongo_lockTimeout l,
                           ownerID = Mongo_ownerID l, logger = Mongo_logger l \<rparr>"
| "config (Etcd l w) = \<lparr> lockName = Etcd_lockKey l, lockTimeout = Etcd_lockTimeout l,
                          ownerID = Etcd_ownerID l, logger = Etcd_logger l \<rparr>"
| "config (Consul l w) = \<lparr> lockName = Consul_lockKey l, lockTimeout = Consul_lockTimeout l,
                            ownerID = Consul_ownerID l, logger = Consul_logger l \<rparr>"
| "config (Zookeeper l w) = \<lparr> lockName = Zookeeper_lockPath l, lockTimeout = Zookeeper_lockTimeout l,
                               ownerID = Zookeeper_ownerID l, logger = Zookeeper_logger l \<rparr>"
| "config (Noop l w) = \<lparr> lockName = [], lockTimeout = Noop_lockTimeout l,
                          ownerID = Noop_ownerID l, logger = Noop_logger l \<rparr>"

fun renewTicker :: "Locker \<Rightarrow> nat option" where
  "renewTicker (Redis l w) = Redis_renewTicker l"
| "renewTicker (Memcached l w) = Memcached_renewTicker l"
| "renewTicker (GORM l w) = GORM_renewTicker l"
| "renewTicker (Mongo l w) = Mongo_renewTicker l"
| "renewTicker (Etcd l w) = Etcd_renewTicker l"
| "renewTicker (Consul l w) = Consul_renewTicker l"
| "renewTicker (Zookeeper l w) = Zookeeper_renewTicker l"
| "renewTicker (Noop l w) = Noop_renewTicker l"

fun stopChan :: "Locker \<Rightarrow> chan" where
  "stopChan (Redis l w) = Redis_stopChan l"
| "stopChan (Memcached l w) = Memcached_stopChan l"
| "stopChan (GORM l w) = GORM_stopChan l"
| "stopChan (Mongo l w) = Mongo_stopChan l"
| "stopChan (Etcd l w) = Etcd_stopChan l"
| "stopChan (Consul l w) = Consul_stopChan l"
| "stopChan (Zookeeper l w) = Zookeeper_stopChan l"
| "stopChan (Noop l w) = Noop_stopChan l"

fun the_tickers :: "Locker \<Rightarrow> Ticker list" where
  "the_tickers (Redis l w) = tickers w"
| "the_tickers (Memcached l w) = tickers w"
| "the_tickers (GORM l w) = tickers w"
| "the_tickers (Mongo l w) = tickers w"
| "the_tickers (Etcd l w) = tickers w"
| "the_tickers (Consul l w) = tickers w"
| "the_tickers (Zookeeper l w) = tickers w"
| "the_tickers (Noop l w) = tickers w"

fun the_goroutines :: "Locker \<Rightarrow> goroutine list" where
  "the_goroutines (Redis l w) = goroutines w"
| "the_goroutines (Memcached l w) = goroutines w"
| "the_goroutines (GORM l w) = goroutines w"
| "the_goroutines (Mongo l w) = goroutines w"
| "the_goroutines (Etcd l w) = goroutines w"
| "the_goroutines (Consul l w) = goroutines w"
| "the_goroutines (Zookeeper l w) = goroutines w"
| "the_goroutines (Noop l w) = goroutines w"

fun the_trace :: "Locker \<Rightarrow> effect list" where
  "the_trace (Redis l w) = trace w"
| "the_trace (Memcached l w) = trace w"
| "the_trace (GORM l w) = trace w"
| "the_trace (Mongo l w) = trace w"
| "the_trace (Etcd l w) = trace w"
| "the_trace (Consul l w) = trace w"
| "the_trace (Zookeeper l w) = trace w"
| "the_trace (Noop l w) = trace w"

fun set_tickers :: "Ticker list \<Rightarrow> Locker \<Rightarrow> Locker" where
  "set_tickers ts (Redis l w) = Redis l (w\<lparr>tickers := ts\<rparr>)"
| "set_tickers ts (Memcached l w) = Memcached l (w\<lparr>tickers := ts\<rparr>)"
| "set_tickers ts (GORM l w) = GORM l (w\<lparr>tickers := ts\<rparr>)"
| "set_tickers ts (Mongo l w) = Mongo l (w\<lparr>tickers := ts\<rparr>)"
| "set_tickers ts (Etcd l w) = Etcd l (w\<lparr>tickers := ts\<rparr>)"
| "set_tickers ts (Consul l w) = Consul l (w\<lparr>tickers := ts\<rparr>)"
| "set_tickers ts (Zookeeper l w) = Zookeeper l (w\<lparr>tickers := ts\<rparr>)"
| "set_tickers ts (Noop l w) = Noop l (w\<lparr>tickers := ts\<rparr>)"

fun set_goroutines :: "goroutine list \<Rightarrow> Locker \<Rightarrow> Locker" where
  "set_goroutines gs (Redis l w) = Redis l (w\<lparr>goroutines := gs\<rparr>)"
| "set_goroutines gs (Memcached l w) = Memcached l (w\<lparr>goroutines := gs\<rparr>)"
| "set_goroutines gs (GORM l w) = GORM l (w\<lparr>goroutines := gs\<rparr>)"
| "set_goroutines gs (Mongo l w) = Mongo l (w\<lparr>goroutines := gs\<rparr>)"
| "set_goroutines gs (Etcd l w) = Etcd l (w\<lparr>goroutines := gs\<rparr>)"
| "set_goroutines gs (Consul l w) = Consul l (w\<lparr>goroutines := gs\<rparr>)"
| "set_goroutines gs (Zookeeper l w) = Zookeeper l (w\<lparr>goroutines := gs\<rparr>)"
| "set_goroutines gs (Noop l w) = Noop l (w\<lparr>goroutines := gs\<rparr>)"

section \<open>The caller, the tickers and the renewal goroutines together\<close>

text \<open>
  The steps of a process that holds one locker. The caller calls a method; a running
  ticker puts a tick into its channel, where one that is not yet received stays; and
  each goroutine runs \<^verbatim>\<open>renewLock\<close>:
  \<^verbatim>\<open>
  for {
      select {
      case <-l.stopChan:
          return
      case <-l.renewTicker.C:
          if err := l.Renew(ctx); err != nil { ... }
      }
  }
  \<close>
  \<open>Enter\<close> evaluates the two channels of the \<^verbatim>\<open>select\<close>, which panics on a nil
  \<^verbatim>\<open>l.renewTicker\<close>; \<open>Receive\<close> takes a tick from the ticker's channel; \<open>Signalled\<close>
  takes the case of the stop channel, ready once that channel is closed or sent on;
  \<open>Renew_by\<close> is the call of \<^verbatim>\<open>l.Renew\<close>, which waits for the mutex and is therefore a
  step of its own. A panic ends the process: no step follows it.
\<close>

datatype action =
    Call_Lock
  | Call_Unlock
  | Call_Renew
  | Tick nat
  | Enter nat
  | Receive nat
  | Signalled nat
  | Renew_by nat

definition returned :: "error option outcome \<times> Locker \<Rightarrow> Locker option" where
  "returned r = (case r of (Return e, s) \<Rightarrow> Some s | (Panic m, s) \<Rightarrow> None)"

fun step :: "action \<Rightarrow> Locker \<Rightarrow> Locker option" where
  "step Call_Lock s = returned (Locker_Lock s)"
| "step Call_Unlock s = returned (Locker_Unlock s)"
| "step Call_Renew s = returned (Locker_Renew s)"
| "step (Tick t) s =
     (if t < length (the_tickers s) \<and> running (the_tickers s ! t)
      then Some (set_tickers ((the_tickers s)[t := (the_tickers s ! t)\<lparr>pending := True\<rparr>]) s)
      else None)"
| "step (Enter g) s =
     (if g < length (the_goroutines s) \<and> the_goroutines s ! g = AtLoop
      then (case renewTicker s of
              None \<Rightarrow> Some (set_goroutines ((the_goroutines s)[g := Crashed]) s)
            | Some t \<Rightarrow> Some (set_goroutines ((the_goroutines s)[g := Waiting t]) s))
      else None)"
| "step (Receive g) s =
     (if g < length (the_goroutines s)
      then (case the_goroutines s ! g of
              Waiting t \<Rightarrow>
                if t < length (the_tickers s) \<and> pending (the_tickers s ! t)
                then Some (set_goroutines ((the_goroutines s)[g := GotTick])
                            (set_tickers ((the_tickers s)[t := (the_tickers s ! t)\<lparr>pending := False\<rparr>]) s))
                else None
            | _ \<Rightarrow> None)
      else None)"
| "step (Signalled g) s =
     (if g < length (the_goroutines s)
      then (case the_goroutines s ! g of
              Waiting t \<Rightarrow>
                if closed (stopChan s) \<or> 0 < sends (stopChan s)
                then Some (set_goroutines ((the_goroutines s)[g := Returned]) s)
                else None
            | _ \<Rightarrow> None)
      else None)"
| "step (Renew_by g) s =
     (if g < length (the_goroutines s) \<and> the_goroutines s ! g = GotTick
      then (case returned (Locker_Renew s) of
              None \<Rightarrow> None
            | Some s' \<Rightarrow> Some (set_goroutines ((the_goroutines s')[g := AtLoop]) s'))
      else None)"

fun run :: "action list \<Rightarrow> Locker \<Rightarrow> Locker option" where
  "run [] s = Some s"
| "run (a # as) s =
     (if Crashed \<in> set (the_goroutines s) then None
      else case step a s of None \<Rightarrow> None | Some s' \<Rightarrow> run as s')"

section \<open>Observations and concrete states\<close>



text \<open>The adapters whose \<^verbatim>\<open>Unlock\<close> assigns \<^verbatim>\<open>l.ownerID = ""\<close> before returning nil.\<close>

definition clears_ownerID :: "Locker \<Rightarrow> bool" where
  "clears_ownerID s =
     (case s of Mongo l w \<Rightarrow> True | Zookeeper l w \<Rightarrow> True | Noop l w \<Rightarrow> True | _ \<Rightarrow> False)"

text \<open>The adapters that talk to a store: all but \<^verbatim>\<open>NoopLocker\<close>.\<close>

definition has_store :: "Locker \<Rightarrow> bool" where
  "has_store s = (case s of Noop l w \<Rightarrow> False | _ \<Rightarrow> True)"

text \<open>The events that \<^verbatim>\<open>Unlock\<close> adds to the trace, and those that are calls of the store.\<close>

definition Unlock_events :: "Locker \<Rightarrow> effect list" where
  "Unlock_events s = drop (length (the_trace s)) (the_trace (snd (Locker_Unlock s)))"

definition is_call :: "effect \<Rightarrow> bool" where
  "is_call e = (case e of EvCall n xs \<Rightarrow> True | _ \<Rightarrow> False)"

text \<open>The owner and the expiry written in the document of a lock name.\<close>

definition mongo_owner :: "mongo world \<Rightarrow> string \<Rightarrow> bson option" where
  "mongo_owner w n = (case docs (backend w) n of None \<Rightarrow> None | Some d \<Rightarrow> d ''ownerID'')"

definition mongo_expiredAt :: "mongo world \<Rightarrow> string \<Rightarrow> bson option" where
  "mongo_expiredAt w n = (case docs (backend w) n of None \<Rightarrow> None | Some d \<Rightarrow> d ''expiredAt'')"

text \<open>A process that has just started: no ticker, no goroutine, nothing done yet.\<close>

definition fresh :: "'b \<Rightarrow> Time \<Rightarrow> 'b world" where
  "fresh b t = \<lparr> backend = b, now = t, tickers = [], goroutines = [], trace = [] \<rparr>"

text \<open>
  The lockers of host \<^verbatim>\<open>host-a\<close>, as their constructors build them from no options (the
  ZooKeeper one from the lock name \<^verbatim>\<open>/locks\<close>), and the stores they meet.
\<close>

definition redis_a :: RedisLocker where
  "redis_a = NewRedisLocker ''host-a'' []"

definition memcached_a :: MemcachedLocker where
  "memcached_a = NewMemcachedLocker ''host-a'' []"

definition noop_a :: Locker where
  "noop_a = Noop (NewNoopLocker ''host-a'' []) (fresh () 0)"

definition mongo_a :: MongoLocker where
  "mongo_a = \<lparr> Mongo_lockName = DefaultLockName, Mongo_lockTimeout = 10 * Second,
               Mongo_renewTicker = None, Mongo_stopChan = make_chan,
               Mongo_ownerID = ''host-a'', Mongo_logger = emptyLogger \<rparr>"

definition etcd_a :: EtcdLocker where
  "etcd_a = \<lparr> Etcd_leaseID = 0, Etcd_lockKey = DefaultLockName, Etcd_lockTimeout = 10 * Second,
              Etcd_renewTicker = None, Etcd_stopChan = make_chan,
              Etcd_ownerID = ''host-a'', Etcd_logger = emptyLogger \<rparr>"

definition consul_a :: ConsulLocker where
  "consul_a = \<lparr> Consul_lockKey = DefaultLockName, Consul_lockTimeout = 10 * Second,
                Consul_renewTicker = None, Consul_stopChan = make_chan,
                Consul_ownerID = ''host-a'', Consul_logger = emptyLogger \<rparr>"

definition zookeeper_a :: ZookeeperLocker where
  "zookeeper_a = \<lparr> Zookeeper_lockPath = ''/locks'', Zookeeper_lockTimeout = 10 * Second,
                   Zookeeper_renewTicker = None, Zookeeper_stopChan = make_chan,
                   Zookeeper_ownerID = ''host-a'', Zookeeper_logger = emptyLogger \<rparr>"

text \<open>Redis with no key, and Redis where the lock key holds \<^verbatim>\<open>host-a\<close> for nine more seconds.\<close>

definition redis_free :: Locker where
  "redis_free = Redis redis_a (fresh \<lparr> rkeys = Map.empty, r_down = False \<rparr> 0)"


text \<open>Memcached where the lock key holds \<^verbatim>\<open>host-a\<close> for nine more seconds.\<close>

definition memcached_held_by_a :: "memcached world" where
  "memcached_held_by_a =
     fresh \<lparr> items = [DefaultLockName \<mapsto> (''host-a'', Some (10 * Second))], m_down = False \<rparr> Second"

text \<open>
  The collection where \<^verbatim>\<open>host-b\<close> holds the lock for another minute, and the empty
  collection, on a server that does or does not refuse conflicting paths.
\<close>

definition mongo_held_by_b :: "bool \<Rightarrow> mongo world" where
  "mongo_held_by_b strict =
     fresh \<lparr> docs = [DefaultLockName \<mapsto>
                  [''name'' \<mapsto> BString DefaultLockName,
                   ''ownerID'' \<mapsto> BString ''host-b'',
                   ''expiredAt'' \<mapsto> BTime (61 * Second)]],
              strict_paths = strict, mg_down = False \<rparr> Second"

definition mongo_free :: "bool \<Rightarrow> mongo world" where
  "mongo_free strict = fresh \<lparr> docs = Map.empty, strict_paths = strict, mg_down = False \<rparr> Second"

text \<open>etcd where \<^verbatim>\<open>host-b\<close> holds the lock key under lease 7, alive for ten more seconds.\<close>

definition etcd_held_by_b :: "etcd world" where
  "etcd_held_by_b =
     fresh \<lparr> leases = [7 \<mapsto> (10, 11 * Second)],
              kv = [DefaultLockName \<mapsto> (''host-b'', 7)],
              next_lease = 8, e_down = False \<rparr> Second"

text \<open>
  A Consul agent with no session and no key, answering \<open>e\<close> to the renewal of an
  unknown identifier; what \<^verbatim>\<open>Lock\<close> of \<^verbatim>\<open>host-a\<close> makes of it; and what a \<^verbatim>\<open>Renew\<close> four
  seconds later makes of that.
\<close>

definition consul_free :: "error option \<Rightarrow> consul world" where
  "consul_free e =
     fresh \<lparr> sessions = Map.empty, kvs = Map.empty, next_session = 0,
              unknown_renewal = e, c_down = False \<rparr> 0"

definition consul_locked :: "error option \<Rightarrow> error option outcome \<times> ConsulLocker \<times> consul world" where
  "consul_locked e = ConsulLocker_Lock consul_a (consul_free e)"

definition consul_renewed :: "error option \<Rightarrow> error option outcome \<times> ConsulLocker \<times> consul world" where
  "consul_renewed e =
     ConsulLocker_Renew (fst (snd (consul_locked e)))
       ((snd (snd (consul_locked e)))\<lparr>now := 4 * Second\<rparr>)"

text \<open>
  A ZooKeeper ensemble that has the node \<^verbatim>\<open>/locks\<close>, the client's session being 42, and
  the same once \<^verbatim>\<open>host-a\<close> has taken the lock.
\<close>

definition zookeeper_free :: "zookeeper world" where
  "zookeeper_free = fresh \<lparr> nodes = [''/locks'' \<mapsto> ([], None)], session = 42, z_down = False \<rparr> 0"

definition zookeeper_locked :: Locker where
  "zookeeper_locked =
     (case ZookeeperLocker_Lock zookeeper_a zookeeper_free of (r, l, w) \<Rightarrow> Zookeeper l w)"

section \<open>Theorems\<close>

subsection \<open>What the runtime and the stores leave alone\<close>

lemma emit_simps [simp]:
  "backend (emit e w) = backend w" "now (emit e w) = now w"
  "tickers (emit e w) = tickers w" "goroutines (emit e w) = goroutines w"
  "trace (emit e w) = trace w @ [e]"
  by (simp_all add: emit_def)

lemma redis_get_emit [simp]: "redis_get (emit e w) k = redis_get w k"
  by (simp add: redis_get_def split: option.split)

lemmas Lock_defs = RedisLocker_Lock_def MemcachedLocker_Lock_def GORMLocker_Lock_def
  MongoLocker_Lock_def EtcdLocker_Lock_def ConsulLocker_Lock_def ZookeeperLocker_Lock_def
  NoopLocker_Lock_def
  GORMLocker_Lock_acquired_def Transaction_def

lemmas Unlock_defs = RedisLocker_Unlock_def MemcachedLocker_Unlock_def GORMLocker_Unlock_def
  MongoLocker_Unlock_def EtcdLocker_Unlock_def ConsulLocker_Unlock_def ZookeeperLocker_Unlock_def
  NoopLocker_Unlock_def

lemmas Renew_defs = RedisLocker_Renew_def MemcachedLocker_Renew_def GORMLocker_Renew_def
  MongoLocker_Renew_def EtcdLocker_Renew_def ConsulLocker_Renew_def ZookeeperLocker_Renew_def
  NoopLocker_Renew_def

lemmas store_defs = SetNX_def Get_def Del_def Expire_def Add_def Replace_def Delete_def store_item_def
  Create_def First_def Save_def Delete_where_name_def Update_expired_at_def UpdateOne_def DeleteOne_def
  Grant_def Put_def etcd_Delete_def Revoke_def KeepAliveOnce_def
  Session_Create_def KV_Put_def KV_Delete_def Session_Renew_def zk_Create_def zk_Delete_def

lemmas runtime_defs = NewTicker_def Stop_def go_renewLock_def

lemmas result_splits = prod.splits sum.splits if_splits option.splits outcome.splits

lemma store_tickers [simp]:
  "tickers (snd (SetNX k v ttl rw)) = tickers rw"
  "tickers (snd (Get k rw)) = tickers rw"
  "tickers (snd (Del k rw)) = tickers rw"
  "tickers (snd (Expire k ttl rw)) = tickers rw"
  "tickers (snd (Add it mw)) = tickers mw"
  "tickers (snd (Replace it mw)) = tickers mw"
  "tickers (snd (Delete k mw)) = tickers mw"
  "tickers (snd (Create r gw)) = tickers gw"
  "tickers (snd (First n gw)) = tickers gw"
  "tickers (snd (Save r gw)) = tickers gw"
  "tickers (snd (Delete_where_name n gw)) = tickers gw"
  "tickers (snd (Update_expired_at n t gw)) = tickers gw"
  "tickers (snd (UpdateOne n u b ow)) = tickers ow"
  "tickers (snd (DeleteOne n ow)) = tickers ow"
  "tickers (snd (Grant i ew)) = tickers ew"
  "tickers (snd (Put k v i ew)) = tickers ew"
  "tickers (snd (etcd_Delete k ew)) = tickers ew"
  "tickers (snd (Revoke i ew)) = tickers ew"
  "tickers (snd (KeepAliveOnce i ew)) = tickers ew"
  "tickers (snd (Session_Create ttl cw)) = tickers cw"
  "tickers (snd (KV_Put k v x cw)) = tickers cw"
  "tickers (snd (KV_Delete k cw)) = tickers cw"
  "tickers (snd (Session_Renew k cw)) = tickers cw"
  "tickers (snd (zk_Create p d f zw)) = tickers zw"
  "tickers (snd (zk_Delete p zw)) = tickers zw"
  by (simp_all add: store_defs Let_def split: option.splits prod.splits)

lemma store_goroutines [simp]:
  "goroutines (snd (SetNX k v ttl rw)) = goroutines rw"
  "goroutines (snd (Get k rw)) = goroutines rw"
  "goroutines (snd (Del k rw)) = goroutines rw"
  "goroutines (snd (Expire k ttl rw)) = goroutines rw"
  "goroutines (snd (Add it mw)) = goroutines mw"
  "goroutines (snd (Replace it mw)) = goroutines mw"
  "goroutines (snd (Delete k mw)) = goroutines mw"
  "goroutines (snd (Create r gw)) = goroutines gw"
  "goroutines (snd (First n gw)) = goroutines gw"
  "goroutines (snd (Save r gw)) = goroutines gw"
  "goroutines (snd (Delete_where_name n gw)) = goroutines gw"
  "goroutines (snd (Update_expired_at n t gw)) = goroutines gw"
  "goroutines (snd (UpdateOne n u b ow)) = goroutines ow"
  "goroutines (snd (DeleteOne n ow)) = goroutines ow"
  "goroutines (snd (Grant i ew)) = goroutines ew"
  "goroutines (snd (Put k v i ew)) = goroutines ew"
  "goroutines (snd (etcd_Delete k ew)) = goroutines ew"
  "goroutines (snd (Revoke i ew)) = goroutines ew"
  "goroutines (snd (KeepAliveOnce i ew)) = goroutines ew"
  "goroutines (snd (Session_Create ttl cw)) = goroutines cw"
  "goroutines (snd (KV_Put k v x cw)) = goroutines cw"
  "goroutines (snd (KV_Delete k cw)) = goroutines cw"
  "goroutines (snd (Session_Renew k cw)) = goroutines cw"
  "goroutines (snd (zk_Create p d f zw)) = goroutines zw"
  "goroutines (snd (zk_Delete p zw)) = goroutines zw"
  by (simp_all add: store_defs Let_def split: option.splits prod.splits)

lemma release_trace [simp]:
  "trace (snd (Del k rw)) = trace rw @ [EvCall ''Del'' [k]]"
  "trace (snd (Delete k mw)) = trace mw @ [EvCall ''Delete'' [k]]"
  "trace (snd (Delete_where_name n gw)) = trace gw @ [EvCall ''Delete'' [n]]"
  "trace (snd (DeleteOne n ow)) = trace ow @ [EvCall ''DeleteOne'' [n]]"
  "trace (snd (etcd_Delete k ew)) = trace ew @ [EvCall ''Delete'' [k]]"
  "trace (snd (Revoke i ew)) = trace ew @ [EvCall ''Revoke'' []]"
  "trace (snd (KV_Delete k cw)) = trace cw @ [EvCall ''KV.Delete'' [k]]"
  "trace (snd (zk_Delete p zw)) = trace zw @ [EvCall ''Delete'' [p]]"
  by (simp_all add: Del_def Delete_def Delete_where_name_def DeleteOne_def etcd_Delete_def
      Revoke_def KV_Delete_def zk_Delete_def Let_def split: option.splits)

lemma trace_Stop [simp]: "trace (Stop t w) = trace w @ [EvStop t]"
  by (simp add: Stop_def)

lemma set_runtime_simps [simp]:
  "stopChan (set_tickers ts s) = stopChan s"
  "stopChan (set_goroutines gs s) = stopChan s"
  "the_goroutines (set_goroutines gs s) = gs"
  "the_goroutines (set_tickers ts s) = the_goroutines s"
  "the_tickers (set_tickers ts s) = ts"
  "the_tickers (set_goroutines gs s) = the_tickers s"
  by (cases s; simp)+

subsection \<open>Acquisition, adapter by adapter\<close>

text \<open>
  \<^verbatim>\<open>GORMLocker.Lock\<close> on MySQL, meeting a row of its lock name: it takes the row over
  exactly when the row's expiry lies before now, and otherwise names the holder and
  leaves the table as it was.
\<close>

lemma GORMLocker_Lock_on_existing_row:
  assumes "rows (backend w) (GORM_lockName l) = Some r" and "Name r = GORM_lockName l"
    and "\<not> g_down (backend w)" and "dialect (backend w) = MySQL"
    and "0 < GORM_lockTimeout l sdiv 2"
  shows "fst (GORMLocker_Lock l w) =
           (if ExpiredAt r < now w then Return None
            else Return (Some (Errorf (''lock is already held by '' @ OwnerID r))))"
    and "rows (backend (snd (snd (GORMLocker_Lock l w)))) =
           (if ExpiredAt r < now w
            then (rows (backend w))(GORM_lockName l \<mapsto>
                   r\<lparr>OwnerID := GORM_ownerID l, ExpiredAt := now w + GORM_lockTimeout l,
                     UpdatedAt := now w\<rparr>)
            else rows (backend w))"
  using assms
  by (simp_all add: GORMLocker_Lock_def GORMLocker_Lock_acquired_def Transaction_def Create_def
      First_def Save_def refused_def duplicate_error_def isDuplicateEntry_def Let_def runtime_defs)

lemma GORMLocker_Lock_on_free_name:
  assumes "rows (backend w) (GORM_lockName l) = None" and "\<not> g_down (backend w)"
    and "0 < GORM_lockTimeout l sdiv 2"
  shows "fst (GORMLocker_Lock l w) = Return None"
    and "rows (backend (snd (snd (GORMLocker_Lock l w)))) (GORM_lockName l) =
           Some \<lparr> ID = next_id (backend w), Name = GORM_lockName l, OwnerID = GORM_ownerID l,
                  ExpiredAt = now w + GORM_lockTimeout l, CreatedAt = now w, UpdatedAt = now w \<rparr>"
  using assms
  by (simp_all add: GORMLocker_Lock_def GORMLocker_Lock_acquired_def Transaction_def Create_def
      refused_def Let_def runtime_defs)

text \<open>
  On PostgreSQL the duplicate insert aborts the transaction, so the read that follows
  fails: \<^verbatim>\<open>Lock\<close> returns that error whatever the expiry of the row, and the table keeps
  the row.
\<close>

lemma GORMLocker_Lock_on_existing_row_PostgreSQL:
  assumes "rows (backend w) (GORM_lockName l) = Some r"
    and "\<not> g_down (backend w)" and "dialect (backend w) = PostgreSQL"
  shows "fst (GORMLocker_Lock l w) = Return (Some (PgError ''25P02''))"
    and "rows (backend (snd (snd (GORMLocker_Lock l w)))) = rows (backend w)"
  using assms
  by (simp_all add: GORMLocker_Lock_def GORMLocker_Lock_acquired_def Transaction_def Create_def
      First_def Save_def refused_def duplicate_error_def isDuplicateEntry_def Let_def runtime_defs)

text \<open>
  \<^verbatim>\<open>RedisLocker.Lock\<close> meeting its key: success when the stored owner is its own, the
  conflict naming the owner otherwise.
\<close>

lemma RedisLocker_Lock_on_held_key:
  assumes "redis_get w (Redis_lockName l) = Some owner" and "\<not> r_down (backend w)"
    and "- 1 \<le> Redis_lockTimeout l"
  shows "fst (RedisLocker_Lock l w) =
           (if owner = Redis_ownerID l then Return None
            else Return (Some (Errorf (''lock is already held by '' @ owner))))"
  using assms by (simp add: RedisLocker_Lock_def SetNX_def Get_def Let_def)

text \<open>\<^verbatim>\<open>MemcachedLocker.Lock\<close> meeting its key: the conflict, whoever the stored owner is.\<close>

lemma MemcachedLocker_Lock_on_held_key:
  assumes "memcached_get w (Memcached_lockKey l) = Some owner" and "\<not> m_down (backend w)"
  shows "fst (MemcachedLocker_Lock l w) = Return (Some (Errorf ''lock is already held by another owner''))"
  using assms by (simp add: MemcachedLocker_Lock_def Add_def Let_def)









subsection \<open>What the three methods leave alone\<close>

text \<open>
  Every constructor copies the configuration fields of the options it was given (all
  four, \<^verbatim>\<open>NewNoopLocker\<close> all but the lock name), makes the stop channel and leaves the
  ticker nil.
\<close>

lemma constructors_copy_the_options:
  "config (Redis (NewRedisLocker h opts) rw) = ApplyOptions h opts"
  "config (Memcached (NewMemcachedLocker h opts) mw) = ApplyOptions h opts"
  "map_sum id (\<lambda>l. config (GORM l gw)) (NewGORMLocker None h opts) = Inr (ApplyOptions h opts)"
  "map_sum id (\<lambda>l. config (Mongo l ow)) (NewMongoLocker None h opts) = Inr (ApplyOptions h opts)"
  "map_sum id (\<lambda>l. config (Etcd l ew)) (NewEtcdLocker None h opts) = Inr (ApplyOptions h opts)"
  "map_sum id (\<lambda>l. config (Consul l cw)) (NewConsulLocker None h opts) = Inr (ApplyOptions h opts)"
  "map_sum id (\<lambda>l. config (Zookeeper l zw)) (NewZookeeperLocker None h opts) = Inr (ApplyOptions h opts)"
  "config (Noop (NewNoopLocker h opts) nw) = (ApplyOptions h opts)\<lparr>lockName := []\<rparr>"
  by (simp_all add: NewRedisLocker_def NewMemcachedLocker_def NewGORMLocker_def NewMongoLocker_def
      NewEtcdLocker_def NewConsulLocker_def NewZookeeperLocker_def NewNoopLocker_def Let_def)

lemma constructors_make_the_stop_channel:
  "stopChan (Redis (NewRedisLocker h opts) rw) = make_chan"
  "stopChan (Memcached (NewMemcachedLocker h opts) mw) = make_chan"
  "map_sum id (\<lambda>l. stopChan (GORM l gw)) (NewGORMLocker None h opts) = Inr make_chan"
  "map_sum id (\<lambda>l. stopChan (Mongo l ow)) (NewMongoLocker None h opts) = Inr make_chan"
  "map_sum id (\<lambda>l. stopChan (Etcd l ew)) (NewEtcdLocker None h opts) = Inr make_chan"
  "map_sum id (\<lambda>l. stopChan (Consul l cw)) (NewConsulLocker None h opts) = Inr make_chan"
  "map_sum id (\<lambda>l. stopChan (Zookeeper l zw)) (NewZookeeperLocker None h opts) = Inr make_chan"
  "stopChan (Noop (NewNoopLocker h opts) nw) = make_chan"
  by (simp_all add: NewRedisLocker_def NewMemcachedLocker_def NewGORMLocker_def NewMongoLocker_def
      NewEtcdLocker_def NewConsulLocker_def NewZookeeperLocker_def NewNoopLocker_def Let_def)

text \<open>
  The lockers of \<^verbatim>\<open>host-a\<close> used in the instances below are what the constructors
  return.
\<close>

lemma lockers_of_host_a:
  "NewMongoLocker None ''host-a'' [] = Inr mongo_a"
  "NewEtcdLocker None ''host-a'' [] = Inr etcd_a"
  "NewConsulLocker None ''host-a'' [] = Inr consul_a"
  "NewZookeeperLocker None ''host-a'' [WithLockName ''/locks''] = Inr zookeeper_a"
  by (simp_all add: NewMongoLocker_def NewEtcdLocker_def NewConsulLocker_def NewZookeeperLocker_def
      mongo_a_def etcd_a_def consul_a_def zookeeper_a_def ApplyOptions_def NewOptions_def
      WithLockName_def Let_def)

lemma stopChan_Lock: "stopChan (snd (Locker_Lock s)) = stopChan s"
  by (cases s) (auto simp: Lock_defs Let_def split: result_splits)

lemma stopChan_Unlock: "stopChan (snd (Locker_Unlock s)) = stopChan s"
  by (cases s) (auto simp: Unlock_defs Let_def split: result_splits)

lemma stopChan_Renew: "stopChan (snd (Locker_Renew s)) = stopChan s"
  by (cases s) (auto simp: Renew_defs Let_def split: result_splits)

lemma config_Lock: "config (snd (Locker_Lock s)) = config s"
  by (cases s) (auto simp: Lock_defs Let_def split: result_splits)

lemma config_Renew: "config (snd (Locker_Renew s)) = config s"
  by (cases s) (auto simp: Renew_defs Let_def split: result_splits)

lemma config_Unlock:
  "config (snd (Locker_Unlock s)) =
     (if clears_ownerID s \<and> fst (Locker_Unlock s) = Return None
      then (config s)\<lparr>ownerID := []\<rparr> else config s)"
  by (cases s) (auto simp: Unlock_defs clears_ownerID_def Let_def split: result_splits)

lemma goroutines_Unlock: "the_goroutines (snd (Locker_Unlock s)) = the_goroutines s"
  by (cases s) (auto simp: Unlock_defs Let_def split_beta Stop_def split: option.splits)

lemma goroutines_Renew: "the_goroutines (snd (Locker_Renew s)) = the_goroutines s"
  by (cases s) (auto simp: Renew_defs Let_def split_beta split: option.splits if_splits sum.splits)

lemma goroutines_Lock:
  "the_goroutines (snd (Locker_Lock s)) = the_goroutines s
   \<or> the_goroutines (snd (Locker_Lock s)) = the_goroutines s @ [AtLoop]"
  by (cases s) (auto simp: Lock_defs Let_def split_beta runtime_defs
       split: option.splits if_splits sum.splits outcome.splits)

text \<open>
  In every adapter \<^verbatim>\<open>Unlock\<close> stops the ticker, when the locker has one, before its first
  call of the store, and leaves the locker without a ticker; every adapter that has a
  store calls it at least once, and \<^verbatim>\<open>NoopLocker\<close> makes no call.
\<close>

lemma Unlock_stops_first:
  "Unlock_events s =
     (case renewTicker s of Some t \<Rightarrow> [EvStop t] | None \<Rightarrow> []) @ filter is_call (Unlock_events s)
   \<and> (filter is_call (Unlock_events s) \<noteq> []) = has_store s"
  by (cases s)
     (auto simp: Unlock_events_def is_call_def has_store_def Unlock_defs Let_def split_beta
        split: option.splits)

text \<open>\<^verbatim>\<open>NoopLocker.Unlock\<close> has no path that returns an error.\<close>

lemma NoopLocker_Unlock_returns_nil: "fst (Locker_Unlock (Noop l w)) = Return None"
  by (simp add: NoopLocker_Unlock_def Let_def split_beta)

lemma renewTicker_Unlock: "renewTicker (snd (Locker_Unlock s)) = None"
  by (cases s) (auto simp: Unlock_defs Let_def split_beta split: option.splits if_splits)

subsection \<open>Steps of the process\<close>

lemma returned_Some: "returned r = Some s' \<Longrightarrow> s' = snd r"
  by (auto simp: returned_def split: prod.splits outcome.splits)

lemma in_set_upd_cases: "x \<in> set (gs[i := g]) \<Longrightarrow> x = g \<or> x \<in> set gs"
  using set_update_subset_insert [of gs i g] by auto

lemma step_stopChan: "step a s = Some s' \<Longrightarrow> stopChan s' = stopChan s"
proof (cases a)
  case Call_Lock
  assume "step a s = Some s'"
  with Call_Lock show ?thesis by (auto dest!: returned_Some simp: stopChan_Lock)
next
  case Call_Unlock
  assume "step a s = Some s'"
  with Call_Unlock show ?thesis by (auto dest!: returned_Some simp: stopChan_Unlock)
next
  case Call_Renew
  assume "step a s = Some s'"
  with Call_Renew show ?thesis by (auto dest!: returned_Some simp: stopChan_Renew)
next
  case (Tick t)
  assume "step a s = Some s'"
  with Tick show ?thesis by (auto split: if_splits)
next
  case (Enter g)
  assume "step a s = Some s'"
  with Enter show ?thesis by (auto split: if_splits option.splits)
next
  case (Receive g)
  assume "step a s = Some s'"
  with Receive show ?thesis by (auto split: if_splits goroutine.splits)
next
  case (Signalled g)
  assume "step a s = Some s'"
  with Signalled show ?thesis by (auto split: if_splits goroutine.splits)
next
  case (Renew_by g)
  assume "step a s = Some s'"
  with Renew_by show ?thesis
    by (auto dest!: returned_Some simp: stopChan_Renew split: if_splits option.splits)
qed

lemma step_not_Returned:
  assumes "step a s = Some s'" and "stopChan s = make_chan" and "Returned \<notin> set (the_goroutines s)"
  shows "Returned \<notin> set (the_goroutines s')"
proof (cases a)
  case Call_Lock
  with assms have "s' = snd (Locker_Lock s)" by (auto dest!: returned_Some)
  with goroutines_Lock [of s] assms(3) show ?thesis by auto
next
  case Call_Unlock
  with assms have "s' = snd (Locker_Unlock s)" by (auto dest!: returned_Some)
  with assms(3) show ?thesis by (simp add: goroutines_Unlock)
next
  case Call_Renew
  with assms have "s' = snd (Locker_Renew s)" by (auto dest!: returned_Some)
  with assms(3) show ?thesis by (simp add: goroutines_Renew)
next
  case (Tick t)
  with assms show ?thesis by (auto split: if_splits)
next
  case (Enter g)
  with assms show ?thesis by (auto split: if_splits option.splits dest: in_set_upd_cases)
next
  case (Receive g)
  with assms show ?thesis by (auto split: if_splits goroutine.splits dest: in_set_upd_cases)
next
  case (Signalled g)
  with assms show ?thesis by (auto simp: make_chan_def split: if_splits goroutine.splits)
next
  case (Renew_by g)
  with assms show ?thesis
    by (auto dest!: returned_Some simp: goroutines_Renew split: if_splits option.splits
        dest: in_set_upd_cases)
qed

lemma run_invariant:
  "run acts s = Some s' \<Longrightarrow> stopChan s = make_chan \<Longrightarrow> Returned \<notin> set (the_goroutines s)
   \<Longrightarrow> stopChan s' = make_chan \<and> Returned \<notin> set (the_goroutines s')"
proof (induction acts arbitrary: s)
  case Nil
  then show ?case by simp
next
  case (Cons a acts)
  from Cons.prems(1) obtain s1 where s1: "step a s = Some s1" and r: "run acts s1 = Some s'"
    by (auto split: if_splits option.splits)
  from step_stopChan [OF s1] Cons.prems(2) have "stopChan s1 = make_chan" by simp
  moreover from step_not_Returned [OF s1 Cons.prems(2) Cons.prems(3)]
  have "Returned \<notin> set (the_goroutines s1)" .
  ultimately show ?case using Cons.IH [OF r] by simp
qed

subsection \<open>The claims\<close>

text \<open>
  C1. The claim asks of both transactional-upsert adapters that \<^verbatim>\<open>Lock\<close> inserts a fresh
  record, takes an existing one over exactly when its expiry has passed, and otherwise
  fails naming the holder and leaves the record as it was. \<^verbatim>\<open>MongoLocker.Lock\<close> does not:
  where \<^verbatim>\<open>host-b\<close> holds the lock for another minute, it returns nil and the document
  now names \<^verbatim>\<open>host-a\<close>; on the empty collection it inserts the document and returns the
  error of a held lock; and on a server that refuses the update for naming each path
  under both operators it fails on either collection with the wrapped write error.
\<close>

theorem MongoLocker_Lock_overwrites_live_lock:
  "mongo_owner (mongo_held_by_b False) DefaultLockName = Some (BString ''host-b'')
   \<and> mongo_expiredAt (mongo_held_by_b False) DefaultLockName = Some (BTime (61 * Second))
   \<and> now (mongo_held_by_b False) = Second
   \<and> fst (MongoLocker_Lock mongo_a (mongo_held_by_b False)) = Return None
   \<and> mongo_owner (snd (snd (MongoLocker_Lock mongo_a (mongo_held_by_b False)))) DefaultLockName
        = Some (BString ''host-a'')
   \<and> fst (MongoLocker_Lock mongo_a (mongo_held_by_b True))
        = Return (Some (Wrapf ''failed to acquire lock: '' (WriteError 40)))
   \<and> fst (MongoLocker_Lock mongo_a (mongo_free False))
        = Return (Some (Errorf ''lock is already held by another owner''))
   \<and> mongo_owner (snd (snd (MongoLocker_Lock mongo_a (mongo_free False)))) DefaultLockName
        = Some (BString ''host-a'')
   \<and> fst (MongoLocker_Lock mongo_a (mongo_free True))
        = Return (Some (Wrapf ''failed to acquire lock: '' (WriteError 40)))"
  by (simp add: MongoLocker_Lock_def mongo_a_def mongo_held_by_b_def mongo_free_def fresh_def
      UpdateOne_def conflicting_paths_def apply_fields_def mongo_owner_def mongo_expiredAt_def
      Let_def NewTicker_def go_renewLock_def DefaultLockName_def Second_def signed_divide_int_def)

text \<open>
  C2. The claim asks that the etcd adapter writes the lock key only when it does not
  exist under a live lease, and fails with the conflict otherwise. \<^verbatim>\<open>EtcdLocker.Lock\<close>
  writes it with a plain \<^verbatim>\<open>Put\<close>: where \<^verbatim>\<open>host-b\<close> holds the key under the live lease 7, it
  returns nil and the key now holds \<^verbatim>\<open>host-a\<close> under the new lease 8.
\<close>

theorem EtcdLocker_Lock_overwrites_live_key:
  "etcd_get etcd_held_by_b DefaultLockName = Some (''host-b'', 7)
   \<and> fst (EtcdLocker_Lock etcd_a etcd_held_by_b) = Return None
   \<and> etcd_get (snd (snd (EtcdLocker_Lock etcd_a etcd_held_by_b))) DefaultLockName = Some (''host-a'', 8)"
  by (simp add: EtcdLocker_Lock_def etcd_a_def etcd_held_by_b_def fresh_def Grant_def Put_def
      etcd_get_def lease_live_def Let_def NewTicker_def go_renewLock_def
      DefaultLockName_def Second_def Seconds_def signed_divide_int_def)

text \<open>
  C3. The claim asks of both compare-and-swap adapters that \<^verbatim>\<open>Lock\<close>, finding the key
  present, succeeds when the stored owner is its own \<^verbatim>\<open>ownerID\<close>. \<^verbatim>\<open>MemcachedLocker.Lock\<close>
  does not read the owner: where the key holds \<^verbatim>\<open>host-a\<close>, the locker of \<^verbatim>\<open>host-a\<close> gets
  the error of a lock held by another owner.
\<close>

theorem MemcachedLocker_Lock_refuses_own_key:
  "memcached_get memcached_held_by_a (Memcached_lockKey memcached_a)
     = Some (Memcached_ownerID memcached_a)
   \<and> fst (MemcachedLocker_Lock memcached_a memcached_held_by_a)
       = Return (Some (Errorf ''lock is already held by another owner''))"
  by (simp add: MemcachedLocker_Lock_def memcached_a_def NewMemcachedLocker_def ApplyOptions_def
      NewOptions_def memcached_held_by_a_def fresh_def Add_def memcached_get_def live_def
      Let_def Second_def)

text \<open>
  C4. The claim asks that no renewal started by the ticker reaches the store once
  \<^verbatim>\<open>Unlock\<close> has begun. In this run of the Redis adapter the goroutine receives a tick,
  \<^verbatim>\<open>Unlock\<close> takes the mutex before the goroutine's \<^verbatim>\<open>Renew\<close> does, and \<^verbatim>\<open>Renew\<close> runs when
  \<^verbatim>\<open>Unlock\<close> has returned: \<^verbatim>\<open>Expire\<close> is sent after \<^verbatim>\<open>Stop\<close> and \<^verbatim>\<open>Del\<close>.
\<close>

theorem RedisLocker_renewal_after_Unlock:
  "map_option the_trace
     (run [Call_Lock, Enter 0, Tick 0, Receive 0, Call_Unlock, Renew_by 0] redis_free)
   = Some [EvCall ''SetNX'' [DefaultLockName, ''host-a''], EvNewTicker 0 (5 * Second), EvGo,
           EvStop 0, EvCall ''Del'' [DefaultLockName], EvCall ''Expire'' [DefaultLockName]]"
  by (simp add: redis_free_def redis_a_def NewRedisLocker_def ApplyOptions_def NewOptions_def fresh_def
      returned_def RedisLocker_Lock_def RedisLocker_Unlock_def RedisLocker_Renew_def
      SetNX_def Del_def Expire_def redis_get_def Stop_def
      Let_def NewTicker_def go_renewLock_def
      Second_def signed_divide_int_def)




text \<open>
  C6. The claim asks that the Consul adapter's \<^verbatim>\<open>Renew\<close> renews the session that \<^verbatim>\<open>Lock\<close>
  created. \<^verbatim>\<open>ConsulLocker.Renew\<close> passes \<^verbatim>\<open>l.ownerID\<close> as the session identifier: after
  \<^verbatim>\<open>Lock\<close> has created the session \<open>session_name 0\<close>, the \<^verbatim>\<open>Renew\<close> four seconds later
  asks the agent to renew \<^verbatim>\<open>host-a\<close>, returns what the agent answers for that unknown
  identifier, and the session keeps the expiry it was created with.
\<close>

theorem ConsulLocker_Renew_names_ownerID:
  "fst (consul_locked e) = Return None
   \<and> fst (consul_renewed e) = Return (map_option (Wrapf ''failed to renew lock: '') e)
   \<and> trace (snd (snd (consul_renewed e))) =
       [EvCall ''Session.Create'' [],
        EvCall ''KV.Put'' [DefaultLockName, ''host-a'', session_name 0],
        EvNewTicker 0 (5 * Second), EvGo,
        EvCall ''Session.Renew'' [''host-a'']]
   \<and> sessions (backend (snd (snd (consul_locked e)))) (session_name 0)
       = Some (10 * Second, 10 * Second)
   \<and> now (snd (snd (consul_renewed e))) = 4 * Second
   \<and> sessions (backend (snd (snd (consul_renewed e)))) (session_name 0)
       = Some (10 * Second, 10 * Second)"
  by (cases e) (simp_all add: consul_renewed_def consul_locked_def ConsulLocker_Lock_def ConsulLocker_Renew_def
      consul_a_def consul_free_def fresh_def Session_Create_def KV_Put_def Session_Renew_def
      session_name_def Let_def NewTicker_def go_renewLock_def
      DefaultLockName_def Second_def signed_divide_int_def)

text \<open>
  C7. The claim asks that the ZooKeeper adapter writes the lock as an ephemeral node,
  gone when the client's session ends. \<^verbatim>\<open>ZookeeperLocker.Lock\<close> passes the flags \<open>0\<close> to
  \<^verbatim>\<open>Create\<close>: the node \<^verbatim>\<open>/locks/host-a\<close> it makes has no owning session and is still there
  when session 42, the client's, has ended.
\<close>

theorem ZookeeperLocker_Lock_node_outlives_session:
  "session (backend zookeeper_free) = 42
   \<and> fst (ZookeeperLocker_Lock zookeeper_a zookeeper_free) = Return None
   \<and> nodes (backend (snd (snd (ZookeeperLocker_Lock zookeeper_a zookeeper_free)))) ''/locks/host-a''
       = Some ([], None)
   \<and> nodes (session_ended 42 (backend (snd (snd (ZookeeperLocker_Lock zookeeper_a zookeeper_free)))))
        ''/locks/host-a'' = Some ([], None)"
  by (simp add: ZookeeperLocker_Lock_def zookeeper_a_def zookeeper_free_def fresh_def zk_Create_def
      parent_path_def FlagEphemeral_def session_ended_def Let_def NewTicker_def go_renewLock_def
      Second_def signed_divide_int_def)

text \<open>
  C8, as stated, fails: \<^verbatim>\<open>Unlock\<close> of the ZooKeeper locker of \<^verbatim>\<open>host-a\<close>, holding the lock,
  returns nil and leaves the locker with the empty \<^verbatim>\<open>ownerID\<close>.
\<close>

theorem ZookeeperLocker_Unlock_clears_ownerID:
  "ownerID (config zookeeper_locked) = ''host-a''
   \<and> fst (Locker_Unlock zookeeper_locked) = Return None
   \<and> ownerID (config (snd (Locker_Unlock zookeeper_locked))) = []"
  by (simp add: zookeeper_locked_def ZookeeperLocker_Lock_def ZookeeperLocker_Unlock_def
      zookeeper_a_def zookeeper_free_def fresh_def zk_Create_def zk_Delete_def
      parent_path_def FlagEphemeral_def Let_def runtime_defs
      Second_def signed_divide_int_def)

text \<open>The same at \<^verbatim>\<open>NoopLocker\<close>, whose \<^verbatim>\<open>Unlock\<close> does nothing else to the locker.\<close>

lemma NoopLocker_Unlock_clears_ownerID:
  "ownerID (config noop_a) = ''host-a''
   \<and> fst (Locker_Unlock noop_a) = Return None
   \<and> ownerID (config (snd (Locker_Unlock noop_a))) = []"
  by (simp add: noop_a_def NewNoopLocker_def NoopLocker_Unlock_def ApplyOptions_def NewOptions_def
      fresh_def Let_def)

text \<open>
  C8, amended. In every one of the eight adapters \<^verbatim>\<open>Lock\<close> and \<^verbatim>\<open>Renew\<close> leave the
  configuration fields (lock name, owner, timeout, logger) as they were, and so does
  \<^verbatim>\<open>Unlock\<close>, except that an \<^verbatim>\<open>Unlock\<close> of the Mongo, the ZooKeeper or the Noop adapter
  that returns nil sets \<^verbatim>\<open>ownerID\<close> to the empty string; \<^verbatim>\<open>NoopLocker.Unlock\<close> always
  returns nil.
\<close>

theorem configuration_changed_only_by_Unlock_clearing_ownerID:
  "config (snd (Locker_Lock s)) = config s
   \<and> config (snd (Locker_Renew s)) = config s
   \<and> config (snd (Locker_Unlock s)) =
       (if clears_ownerID s \<and> fst (Locker_Unlock s) = Return None
        then (config s)\<lparr>ownerID := []\<rparr> else config s)"
  using config_Lock [of s] config_Renew [of s] config_Unlock [of s] by simp

text \<open>
  C9. Built from no options, the configuration holds the defaults: the fixed lock name
  \<^verbatim>\<open>onex-distributed-lock\<close>, a timeout of ten seconds, the host name as owner and the
  no-op logger. An option applied after any others changes its own field of the
  configuration built so far and no other.
\<close>

theorem ApplyOptions_defaults_and_overrides:
  "ApplyOptions hostname [] =
     \<lparr> lockName = ''onex-distributed-lock'', lockTimeout = 10000000000,
       ownerID = hostname, logger = emptyLogger \<rparr>
   \<and> ApplyOptions hostname (opts @ [WithLockName n]) = (ApplyOptions hostname opts)\<lparr>lockName := n\<rparr>
   \<and> ApplyOptions hostname (opts @ [WithLockTimeout d]) = (ApplyOptions hostname opts)\<lparr>lockTimeout := d\<rparr>
   \<and> ApplyOptions hostname (opts @ [WithOwnerID i]) = (ApplyOptions hostname opts)\<lparr>ownerID := i\<rparr>
   \<and> ApplyOptions hostname (opts @ [WithLogger g]) = (ApplyOptions hostname opts)\<lparr>logger := g\<rparr>"
  by (simp add: ApplyOptions_def NewOptions_def DefaultLockName_def Second_def
      WithLockName_def WithLockTimeout_def WithOwnerID_def WithLogger_def)

text \<open>
  C10. In every adapter \<^verbatim>\<open>Lock\<close>, \<^verbatim>\<open>Unlock\<close> and \<^verbatim>\<open>Renew\<close> leave the stop channel as it
  was, neither closed nor sent on, and \<^verbatim>\<open>Unlock\<close> leaves the locker without a ticker.
  So, from a locker whose stop channel is as its constructor made it, whatever the
  caller, the tickers and the goroutines do, the channel stays so and no \<^verbatim>\<open>renewLock\<close>
  goroutine ever returns through it.
\<close>

theorem stop_channel_never_signalled:
  assumes "run acts s = Some s'" and "stopChan s = make_chan"
    and "Returned \<notin> set (the_goroutines s)"
  shows "stopChan (snd (Locker_Lock s)) = stopChan s
         \<and> stopChan (snd (Locker_Unlock s)) = stopChan s
         \<and> stopChan (snd (Locker_Renew s)) = stopChan s
         \<and> renewTicker (snd (Locker_Unlock s)) = None
         \<and> stopChan s' = make_chan
         \<and> Returned \<notin> set (the_goroutines s')"
  using run_invariant [OF assms]
  by (simp add: stopChan_Lock stopChan_Unlock stopChan_Renew renewTicker_Unlock)

text \<open>
  An instance: \<^verbatim>\<open>Lock\<close>, a tick received by the goroutine, \<^verbatim>\<open>Unlock\<close>, and the goroutine's
  \<^verbatim>\<open>Renew\<close>, on a Redis without the key.
\<close>

theorem stop_channel_never_signalled_witness:
  "stopChan redis_free = make_chan
   \<and> Returned \<notin> set (the_goroutines redis_free)
   \<and> (\<exists>s'. run [Call_Lock, Enter 0, Tick 0, Receive 0, Call_Unlock, Renew_by 0] redis_free = Some s'
          \<and> stopChan s' = make_chan \<and> Returned \<notin> set (the_goroutines s'))"
proof -
  have a: "stopChan redis_free = make_chan"
    by (simp add: redis_free_def redis_a_def NewRedisLocker_def Let_def)
  have b: "Returned \<notin> set (the_goroutines redis_free)"
    by (simp add: redis_free_def fresh_def)
  have "run [Call_Lock, Enter 0, Tick 0, Receive 0, Call_Unlock, Renew_by 0] redis_free \<noteq> None"
    by (simp add: redis_free_def redis_a_def NewRedisLocker_def ApplyOptions_def NewOptions_def fresh_def
      returned_def RedisLocker_Lock_def RedisLocker_Unlock_def RedisLocker_Renew_def
      SetNX_def Del_def Expire_def redis_get_def Stop_def
      Let_def NewTicker_def go_renewLock_def
      Second_def signed_divide_int_def)
  then obtain s' where
    r: "run [Call_Lock, Enter 0, Tick 0, Receive 0, Call_Unlock, Renew_by 0] redis_free = Some s'"
    by blast
  from stop_channel_never_signalled [OF r a b] a b r show ?thesis by simp
qed

end
